(* ===== verification/Prelude.thy ===== *)
theory Prelude
  imports Main "HOL-Library.Word" "HOL-Library.Signed_Division"
begin

text \<open>
  Shared vocabulary of the development: the C integer types the daemon uses, the
  clamping idiom \<open>if (x > hi) x = hi;\<close> that the backlight code writes out by hand,
  the collection \<open>c_model_defs\<close> of definitions unfolded when a concrete C state is
  evaluated, and a few arithmetic facts every component needs.
\<close>

named_theorems c_model_defs "definitions of the C model unfolded to evaluate concrete states"

type_synonym c_int = int \<comment> \<open>C \<open>int\<close>; range checked by \<open>c_int_range\<close> where it matters\<close>
type_synonym c_short = "16 word" \<comment> \<open>C \<open>short\<close>, as in \<open>struct pollfd.revents\<close>\<close>

definition INT_MIN :: int where "INT_MIN = - (2 ^ 31)"
definition INT_MAX :: int where "INT_MAX = 2 ^ 31 - 1"

definition LONG_MIN :: int where "LONG_MIN = - (2 ^ 63)"
definition LONG_MAX :: int where "LONG_MAX = 2 ^ 63 - 1"

definition c_int_range :: "int \<Rightarrow> bool" where
  "c_int_range v \<longleftrightarrow> INT_MIN \<le> v \<and> v \<le> INT_MAX"

text \<open>
  The two clamping statements of the C sources, \<open>if (v > hi) v = hi;\<close> and
  \<open>if (v < lo) v = lo;\<close>, as functions, so that the model reads like the code.
\<close>

definition clamp_above :: "int \<Rightarrow> int \<Rightarrow> int" where
  "clamp_above hi v = (if v > hi then hi else v)"

definition clamp_below :: "int \<Rightarrow> int \<Rightarrow> int" where
  "clamp_below lo v = (if v < lo then lo else v)"

lemma clamp_above_le [simp]: "clamp_above hi v \<le> hi"
  by (simp add: clamp_above_def)

lemma clamp_above_le_self [simp]: "clamp_above hi v \<le> v"
  by (simp add: clamp_above_def)

lemma clamp_above_ge_iff: "lo \<le> clamp_above hi v \<longleftrightarrow> lo \<le> hi \<and> lo \<le> v"
  by (auto simp add: clamp_above_def)

lemma clamp_above_id [simp]: "v \<le> hi \<Longrightarrow> clamp_above hi v = v"
  by (simp add: clamp_above_def)

lemma clamp_below_ge [simp]: "lo \<le> clamp_below lo v"
  by (simp add: clamp_below_def)

lemma clamp_below_ge_self [simp]: "v \<le> clamp_below lo v"
  by (simp add: clamp_below_def)

lemma clamp_below_le_iff: "clamp_below lo v \<le> hi \<longleftrightarrow> lo \<le> hi \<and> v \<le> hi"
  by (auto simp add: clamp_below_def)

lemma clamp_below_id [simp]: "lo \<le> v \<Longrightarrow> clamp_below lo v = v"
  by (simp add: clamp_below_def)

text \<open>C's \<open>m / 2\<close> truncates towards zero; on a non-negative \<open>m\<close> it is \<open>div\<close>.\<close>

lemma sdiv2_nonneg [simp]: "0 \<le> (m::int) \<Longrightarrow> m sdiv 2 = m div 2"
  by (cases "m = 0") (auto simp add: signed_divide_int_def)

lemma sdiv2_bounds: "0 \<le> (m::int) \<Longrightarrow> 0 \<le> m sdiv 2 \<and> m sdiv 2 \<le> m"
  by simp

lemmas clamp_defs [c_model_defs] = clamp_above_def clamp_below_def

end
