(* ===== verification/CText.thy ===== *)
theory CText
  imports Prelude
begin

text \<open>
  The two libc text conversions the backlight driver relies on: \<open>printf("%d")\<close>,
  which the driver uses to write a level into a sysfs node and which the kernel uses
  to show one, and \<open>atoi\<close>, which the driver applies to the bytes it read back.
  \<open>atoi(s)\<close> is \<open>(int) strtol(s, NULL, 10)\<close> in glibc: leading white space is
  skipped, one optional sign is read, then decimal digits up to the first non-digit
  (\<open>strtol_value\<close>, the exact value). \<open>strtol\<close> saturates at the bounds of a 64-bit
  \<open>long\<close>, and the conversion to \<open>int\<close> keeps the low 32 bits as a signed value
  (gcc's definition of that implementation-defined conversion). The digits that
  follow an unterminated buffer on the stack can make the value leave the range
  of \<open>int\<close>, so the conversion matters. The main fact is the round trip \<open>atoi_nat_digits\<close>: reading back a printed
  number gives the number, provided the text after it does not start with a digit.
\<close>

definition is_digit :: "char \<Rightarrow> bool" where
  "is_digit c \<longleftrightarrow> 48 \<le> (of_char c :: nat) \<and> (of_char c :: nat) \<le> 57"

definition is_space :: "char \<Rightarrow> bool" where
  "is_space c \<longleftrightarrow> (of_char c :: nat) = 32 \<or> (9 \<le> (of_char c :: nat) \<and> (of_char c :: nat) \<le> 13)"

definition digit_val :: "char \<Rightarrow> int" where
  "digit_val c = int (of_char c) - 48"

definition digit_char :: "nat \<Rightarrow> char" where
  "digit_char d = ''0123456789'' ! d"

definition nl :: char where
  "nl = CHR ''\<newline>''"

text \<open>The decimal digits of a natural number, most significant first.\<close>

fun nat_digits :: "nat \<Rightarrow> string" where
  "nat_digits n =
     (if n < 10 then [digit_char n] else nat_digits (n div 10) @ [digit_char (n mod 10)])"

declare nat_digits.simps [simp del]

text \<open>\<open>printf("%d", v)\<close>.\<close>

definition c_itoa :: "int \<Rightarrow> string" where
  "c_itoa v = (if v < 0 then CHR ''-'' # nat_digits (nat (- v)) else nat_digits (nat v))"

text \<open>The digit loop of \<open>strtol\<close>: accumulate while the next byte is a digit.\<close>

fun atoi_digits :: "int \<Rightarrow> string \<Rightarrow> int" where
  "atoi_digits acc [] = acc"
| "atoi_digits acc (c # cs) = (if is_digit c then atoi_digits (10 * acc + digit_val c) cs else acc)"

definition strtol_value :: "string \<Rightarrow> int" where
  "strtol_value s =
     (case dropWhile is_space s of
        [] \<Rightarrow> 0
      | c # cs \<Rightarrow>
          if c = CHR ''-'' then - atoi_digits 0 cs
          else if c = CHR ''+'' then atoi_digits 0 cs
          else atoi_digits 0 (c # cs))"

definition strtol :: "string \<Rightarrow> int" where
  "strtol s = clamp_below LONG_MIN (clamp_above LONG_MAX (strtol_value s))"

definition atoi :: "string \<Rightarrow> c_int" where
  "atoi s = sint (word_of_int (strtol s) :: 32 word)"

text \<open>Text that ends a number: empty, or starting with a byte that is not a digit.\<close>

definition digit_free_start :: "string \<Rightarrow> bool" where
  "digit_free_start s \<longleftrightarrow> (case s of [] \<Rightarrow> True | c # _ \<Rightarrow> \<not> is_digit c)"

text \<open>Value of a digit string read onto an accumulator.\<close>

definition digits_value :: "int \<Rightarrow> string \<Rightarrow> int" where
  "digits_value acc ds = foldl (\<lambda>a c. 10 * a + digit_val c) acc ds"

lemmas ctext_defs [c_model_defs] =
  is_digit_def is_space_def digit_val_def digit_char_def nl_def c_itoa_def strtol_value_def strtol_def atoi_def
  digit_free_start_def digits_value_def

subsection \<open>Digits\<close>

lemma digit_char_props:
  assumes "d < 10"
  shows "is_digit (digit_char d) \<and> digit_val (digit_char d) = int d"
proof -
  have "d \<in> {0, 1, 2, 3, 4, 5, 6, 7, 8, 9}"
    using assms by auto
  then show ?thesis
    by (auto simp add: is_digit_def digit_val_def digit_char_def)
qed

lemma nat_digits_all_digits: "list_all is_digit (nat_digits n)"
proof (induction n rule: nat_digits.induct)
  case (1 n)
  then show ?case
    by (subst nat_digits.simps) (simp add: digit_char_props)
qed

lemma nat_digits_not_Nil [simp]: "nat_digits n \<noteq> []"
  by (subst nat_digits.simps) simp

lemma nat_digits_hd_digit: "is_digit (hd (nat_digits n))"
  using nat_digits_all_digits [of n] nat_digits_not_Nil [of n]
  by (cases "nat_digits n") auto

lemma atoi_digits_append:
  "list_all is_digit ds \<Longrightarrow> atoi_digits acc (ds @ rest) = atoi_digits (digits_value acc ds) rest"
  by (induction ds arbitrary: acc) (simp_all add: digits_value_def)

lemma atoi_digits_stop: "digit_free_start rest \<Longrightarrow> atoi_digits acc rest = acc"
  by (cases rest) (simp_all add: digit_free_start_def)

lemma digits_value_nat_digits:
  "digits_value acc (nat_digits n) = acc * 10 ^ length (nat_digits n) + int n"
proof (induction n arbitrary: acc rule: nat_digits.induct)
  case (1 n)
  show ?case
  proof (cases "n < 10")
    case True
    then show ?thesis
      by (subst (1 2) nat_digits.simps) (simp add: digits_value_def digit_char_props)
  next
    case False
    have IH: "digits_value acc (nat_digits (n div 10)) =
              acc * 10 ^ length (nat_digits (n div 10)) + int (n div 10)"
      using "1.IH" False by simp
    have d: "digit_val (digit_char (n mod 10)) = int (n mod 10)"
      by (simp add: digit_char_props)
    have "n = 10 * (n div 10) + n mod 10"
      by simp
    then have "int n = 10 * int (n div 10) + int (n mod 10)"
      by (metis of_nat_add of_nat_mult of_nat_numeral)
    then show ?thesis
      using False IH d
      by (subst (1 2) nat_digits.simps) (simp add: digits_value_def algebra_simps)
  qed
qed

lemma atoi_digits_nat_digits:
  "digit_free_start rest \<Longrightarrow> atoi_digits 0 (nat_digits n @ rest) = int n"
  by (simp add: atoi_digits_append nat_digits_all_digits atoi_digits_stop
      digits_value_nat_digits)

lemma length_nat_digits_le:
  "n < 10 ^ k \<Longrightarrow> 0 < k \<Longrightarrow> length (nat_digits n) \<le> k"
proof (induction n arbitrary: k rule: nat_digits.induct)
  case (1 n)
  show ?case
  proof (cases "n < 10")
    case True
    with "1.prems" show ?thesis
      by (subst nat_digits.simps) simp
  next
    case False
    have "\<not> k \<le> 1"
    proof
      assume "k \<le> 1"
      then have "(10::nat) ^ k \<le> 10 ^ 1"
        by (rule power_increasing) simp
      with "1.prems"(1) False show False
        by simp
    qed
    then obtain k' where k: "k = Suc k'" and k': "0 < k'"
      by (cases k) auto
    have "n div 10 < 10 ^ k'"
      using "1.prems"(1) k by (simp add: less_mult_imp_div_less mult.commute)
    then have "length (nat_digits (n div 10)) \<le> k'"
      using "1.IH" False k' by simp
    with False k show ?thesis
      by (subst nat_digits.simps) simp
  qed
qed

lemma not_space_digit: "is_digit c \<Longrightarrow> \<not> is_space c"
  by (simp add: is_digit_def is_space_def)

lemma length_nat_digits_gt:
  "10 ^ k \<le> n \<Longrightarrow> k < length (nat_digits n)"
proof (induction n arbitrary: k rule: nat_digits.induct)
  case (1 n)
  show ?case
  proof (cases "n < 10")
    case True
    then have "(10::nat) ^ k < 10 ^ 1"
      using "1.prems" by simp
    then have "k = 0"
      using power_strict_increasing_iff [of "10::nat" k 1] by simp
    with True show ?thesis
      by (subst nat_digits.simps) simp
  next
    case False
    show ?thesis
    proof (cases k)
      case 0
      then show ?thesis by (simp add: length_greater_0_conv)
    next
      case (Suc k')
      then have "10 ^ k' \<le> n div 10"
        using "1.prems" by (simp add: less_eq_div_iff_mult_less_eq mult.commute)
      then have "k' < length (nat_digits (n div 10))"
        using "1.IH" False by simp
      with False Suc show ?thesis
        by (subst nat_digits.simps) simp
    qed
  qed
qed

lemma atoi_digit_start:
  assumes "is_digit c"
  shows "strtol_value (c # cs) = atoi_digits 0 (c # cs)"
proof -
  have "\<not> is_space c" "c \<noteq> CHR ''-''" "c \<noteq> CHR ''+''"
    using assms by (auto simp add: not_space_digit is_digit_def)
  then show ?thesis
    by (simp add: strtol_value_def)
qed

text \<open>Within the range of \<open>int\<close>, \<open>atoi\<close> returns the exact value.\<close>

lemma atoi_in_range:
  assumes "- (2 ^ 31) \<le> strtol_value s" "strtol_value s < 2 ^ 31"
  shows "atoi s = strtol_value s"
proof -
  have "strtol s = strtol_value s"
    using assms by (simp add: strtol_def clamp_above_def clamp_below_def LONG_MIN_def LONG_MAX_def)
  then show ?thesis
    using assms by (simp add: atoi_def sint_sbintrunc' signed_take_bit_int_eq_self)
qed

lemma atoi_digits_mono: "0 \<le> acc \<Longrightarrow> acc \<le> atoi_digits acc s"
proof (induction s arbitrary: acc)
  case Nil
  then show ?case by simp
next
  case (Cons c cs)
  show ?case
  proof (cases "is_digit c")
    case True
    then have "0 \<le> digit_val c"
      by (simp add: is_digit_def digit_val_def)
    then have "acc \<le> 10 * acc + digit_val c" "0 \<le> 10 * acc + digit_val c"
      using Cons.prems by simp_all
    with Cons.IH [of "10 * acc + digit_val c"] True show ?thesis
      by simp
  next
    case False
    then show ?thesis by simp
  qed
qed

lemma nat_digits_three:
  "100 \<le> n \<Longrightarrow> n < 1000 \<Longrightarrow> length (nat_digits n) = 3"
  using length_nat_digits_le [of n 3] length_nat_digits_gt [of 2 n] by simp

subsection \<open>Printing and reading back\<close>

lemma c_itoa_not_space: "c_itoa v \<noteq> [] \<and> \<not> is_space (hd (c_itoa v))"
  using nat_digits_hd_digit not_space_digit
  by (auto simp add: c_itoa_def is_space_def)

lemma c_itoa_nonneg: "0 \<le> v \<Longrightarrow> c_itoa v = nat_digits (nat v)"
  by (simp add: c_itoa_def)

lemma strtol_value_nat_digits:
  assumes "digit_free_start rest"
  shows "strtol_value (nat_digits n @ rest) = int n"
proof -
  obtain c cs where ds: "nat_digits n = c # cs"
    by (cases "nat_digits n") auto
  have c: "is_digit c"
    using nat_digits_hd_digit [of n] ds by simp
  then have "\<not> is_space c" "c \<noteq> CHR ''-''" "c \<noteq> CHR ''+''"
    by (auto simp add: not_space_digit is_digit_def)
  then show ?thesis
    using atoi_digits_nat_digits [OF assms, of n] ds
    by (simp add: strtol_value_def)
qed

lemma atoi_nat_digits:
  assumes "digit_free_start rest" "n < 2 ^ 31"
  shows "atoi (nat_digits n @ rest) = int n"
proof -
  have "int n < 2 ^ 31"
    using assms(2) by (metis of_nat_less_iff of_nat_numeral of_nat_power)
  then show ?thesis
    using strtol_value_nat_digits [OF assms(1), of n] by (simp add: atoi_in_range)
qed

end
