(* ===== verification/SysfsBacklight.thy ===== *)
theory SysfsBacklight
  imports CText
begin

text \<open>
  The sysfs LCD backlight driver of \<open>src/pommed/pmac/sysfs_backlight.c\<close>. Its C
  globals \<open>bck_driver\<close>, \<open>lcd_bck_info\<close> and \<open>lcd_sysfs_cfg\<close> are fields of the
  record \<open>sysfs_state\<close>; the sysfs directory \<open>/sys/class/backlight/radeonbl0\<close> is
  the record \<open>sysfs_hw\<close> (the kernel's level and maximum, and whether each node can
  be opened); the uninitialised bytes that follow the three bytes \<open>read()\<close> puts in
  \<open>char buffer[4]\<close> are \<open>stack_junk\<close>; the D-Bus notifications are a list of
  \<open>(new, old)\<close> pairs. Every C function is one definition over this state, its
  early returns and failed \<open>open\<close>s included. The kernel side of the nodes (show
  with \<open>"%d\n"\<close>, store with \<open>kstrtoul\<close> and a range check) is modelled by
  \<open>node_text\<close>, \<open>kernel_parse\<close> and \<open>brightness_store\<close>.
\<close>

subsection \<open>Data\<close>

datatype sysfs_driver = SYSFS_DRIVER_NONE | SYSFS_DRIVER_RADEON

text \<open>Constants of \<open>pommed.h\<close> and \<open>lcd_backlight.h\<close> (headers not in the sources).\<close>

definition STEP_UP :: int where "STEP_UP = 1"
definition STEP_DOWN :: int where "STEP_DOWN = -1"
definition SYSFS_BACKLIGHT_OFF :: int where "SYSFS_BACKLIGHT_OFF = 0"

record lcd_bck_info =
  level :: c_int
  max_level :: c_int

record lcd_sysfs_cfg_t =
  init :: c_int
  step :: c_int

record sysfs_hw =
  hw_level :: int
  hw_max :: int
  hw_brightness_w :: bool
  hw_actual_r :: bool
  hw_max_r :: bool

record sysfs_state =
  bck_driver :: sysfs_driver
  lcd_bck_info :: lcd_bck_info
  lcd_sysfs_cfg :: lcd_sysfs_cfg_t
  hw :: sysfs_hw
  stack_junk :: string
  dbus_lcd :: "(c_int \<times> c_int) list"

subsection \<open>The kernel side of the sysfs nodes\<close>

definition node_text :: "int \<Rightarrow> string" where
  "node_text v = c_itoa v @ [nl]"

definition kernel_parse :: "string \<Rightarrow> int option" where
  "kernel_parse txt =
     (if txt \<noteq> [] \<and> list_all is_digit txt then Some (digits_value 0 txt) else None)"

definition brightness_store :: "string \<Rightarrow> sysfs_hw \<Rightarrow> sysfs_hw" where
  "brightness_store txt h =
     (case kernel_parse txt of
        None \<Rightarrow> h
      | Some v \<Rightarrow> if v \<le> hw_max h then h\<lparr>hw_level := v\<rparr> else h)"

definition hw_wf :: "sysfs_hw \<Rightarrow> bool" where
  "hw_wf h \<longleftrightarrow> 0 \<le> hw_level h \<and> hw_level h \<le> hw_max h \<and> hw_max h < 1000"

subsection \<open>The node tables and the driver functions\<close>

text \<open>
  \<open>actual_brightness[]\<close>, \<open>max_brightness[]\<close> and \<open>brightness[]\<close>, indexed by the
  driver: entry \<open>SYSFS_DRIVER_NONE\<close> is \<open>/dev/null\<close> (opens, reads nothing, swallows
  writes); \<open>None\<close> is a failed \<open>open\<close>.
\<close>

definition actual_brightness :: "sysfs_driver \<Rightarrow> sysfs_hw \<Rightarrow> string option" where
  "actual_brightness drv h =
     (case drv of
        SYSFS_DRIVER_NONE \<Rightarrow> Some []
      | SYSFS_DRIVER_RADEON \<Rightarrow> if hw_actual_r h then Some (node_text (hw_level h)) else None)"

definition max_brightness :: "sysfs_driver \<Rightarrow> sysfs_hw \<Rightarrow> string option" where
  "max_brightness drv h =
     (case drv of
        SYSFS_DRIVER_NONE \<Rightarrow> Some []
      | SYSFS_DRIVER_RADEON \<Rightarrow> if hw_max_r h then Some (node_text (hw_max h)) else None)"

definition brightness :: "sysfs_driver \<Rightarrow> sysfs_hw \<Rightarrow> (string \<Rightarrow> sysfs_hw) option" where
  "brightness drv h =
     (case drv of
        SYSFS_DRIVER_NONE \<Rightarrow> Some (\<lambda>_. h)
      | SYSFS_DRIVER_RADEON \<Rightarrow> if hw_brightness_w h then Some (\<lambda>txt. brightness_store txt h) else None)"

text \<open>
  \<open>open\<close>, \<open>read(fd, buffer, sizeof(buffer) - 1)\<close>, \<open>atoi(buffer)\<close>: at most three
  bytes of the node are read, \<open>buffer[3]\<close> is never written, so \<open>atoi\<close> continues
  into whatever the stack holds there. A failed open or an empty read gives 0.
\<close>

definition read_int_node :: "string option \<Rightarrow> string \<Rightarrow> c_int" where
  "read_int_node node junk =
     (case node of
        None \<Rightarrow> 0
      | Some txt \<Rightarrow> (let buf = take 3 txt in if buf = [] then 0 else atoi (buf @ junk)))"

definition sysfs_backlight_get :: "sysfs_state \<Rightarrow> c_int" where
  "sysfs_backlight_get s =
     (if bck_driver s = SYSFS_DRIVER_NONE then 0
      else read_int_node (actual_brightness (bck_driver s) (hw s)) (stack_junk s))"

definition sysfs_backlight_get_max :: "sysfs_state \<Rightarrow> c_int" where
  "sysfs_backlight_get_max s =
     (if bck_driver s = SYSFS_DRIVER_NONE then 0
      else read_int_node (max_brightness (bck_driver s) (hw s)) (stack_junk s))"

text \<open>\<open>fopen(brightness[bck_driver], "a")\<close>, \<open>fprintf(fp, "%d", value)\<close>: a failed
  open is logged and swallowed, as is a value the kernel refuses.\<close>

definition sysfs_backlight_set :: "c_int \<Rightarrow> sysfs_state \<Rightarrow> sysfs_state" where
  "sysfs_backlight_set value s =
     (case brightness (bck_driver s) (hw s) of
        None \<Rightarrow> s
      | Some wr \<Rightarrow> s\<lparr>hw := wr (c_itoa value)\<rparr>)"

text \<open>The new level of \<open>sysfs_backlight_step\<close>; \<open>None\<close> for a direction that is
  neither \<open>STEP_UP\<close> nor \<open>STEP_DOWN\<close> (the \<open>else return;\<close>).\<close>

definition sysfs_step_newval :: "c_int \<Rightarrow> c_int \<Rightarrow> c_int \<Rightarrow> c_int \<Rightarrow> c_int option" where
  "sysfs_step_newval dir val stp mx =
     (if dir = STEP_UP then Some (clamp_above mx (val + stp))
      else if dir = STEP_DOWN then Some (clamp_below SYSFS_BACKLIGHT_OFF (val - stp))
      else None)"

definition sysfs_backlight_step :: "c_int \<Rightarrow> sysfs_state \<Rightarrow> sysfs_state" where
  "sysfs_backlight_step dir s =
     (if bck_driver s = SYSFS_DRIVER_NONE then s
      else
        let val = sysfs_backlight_get s in
        case sysfs_step_newval dir val (step (lcd_sysfs_cfg s)) (max_level (lcd_bck_info s)) of
          None \<Rightarrow> s
        | Some newval \<Rightarrow>
            let s1 = sysfs_backlight_set newval s;
                s2 = s1\<lparr>dbus_lcd := dbus_lcd s1 @ [(newval, val)]\<rparr>
            in s2\<lparr>lcd_bck_info := (lcd_bck_info s2)\<lparr>level := newval\<rparr>\<rparr>)"

definition sysfs_backlight_fix_config :: "sysfs_state \<Rightarrow> sysfs_state" where
  "sysfs_backlight_fix_config s =
     (let c = lcd_sysfs_cfg s; mx = max_level (lcd_bck_info s);
          c1 = (if init c < 0 then c\<lparr>init := -1\<rparr> else c);
          c2 = (if init c1 > mx then c1\<lparr>init := mx\<rparr> else c1);
          c3 = (if step c2 < 1 then c2\<lparr>step := 1\<rparr> else c2);
          c4 = (if step c3 > mx sdiv 2 then c3\<lparr>step := mx sdiv 2\<rparr> else c3)
      in s\<lparr>lcd_sysfs_cfg := c4\<rparr>)"

definition r9600_sysfs_backlight_probe :: "sysfs_state \<Rightarrow> c_int \<times> sysfs_state" where
  "r9600_sysfs_backlight_probe s =
     (if \<not> hw_brightness_w (hw s) then (-1, s)
      else if \<not> hw_actual_r (hw s) then (-1, s)
      else
        let s1 = s\<lparr>bck_driver := SYSFS_DRIVER_RADEON\<rparr>;
            s2 = s1\<lparr>lcd_bck_info := (lcd_bck_info s1)\<lparr>max_level := sysfs_backlight_get_max s1\<rparr>\<rparr>;
            s3 = sysfs_backlight_fix_config s2;
            s4 = (if init (lcd_sysfs_cfg s3) > -1
                  then sysfs_backlight_set (init (lcd_sysfs_cfg s3)) s3 else s3);
            s5 = s4\<lparr>lcd_bck_info := (lcd_bck_info s4)\<lparr>level := sysfs_backlight_get s4\<rparr>\<rparr>
        in (0, s5))"

subsection \<open>The driver invariant\<close>

text \<open>
  What the probe establishes and every step keeps once a driver is active: the
  in-memory maximum is the kernel's, the in-memory level lies between
  \<open>SYSFS_BACKLIGHT_OFF\<close> and the maximum, and the configuration is fixed
  (\<open>step\<close> in \<open>[0, max / 2]\<close>, \<open>init\<close> in \<open>[-1, max]\<close>).
\<close>

definition sysfs_inv :: "sysfs_state \<Rightarrow> bool" where
  "sysfs_inv s \<longleftrightarrow>
     (bck_driver s = SYSFS_DRIVER_RADEON \<longrightarrow>
        (let b = lcd_bck_info s; c = lcd_sysfs_cfg s in
           max_level b = hw_max (hw s) \<and>
           SYSFS_BACKLIGHT_OFF \<le> level b \<and> level b \<le> max_level b \<and>
           0 \<le> step c \<and> step c \<le> max_level b sdiv 2 \<and>
           -1 \<le> init c \<and> init c \<le> max_level b))"

subsection \<open>States used by the examples\<close>

definition radeon_hw :: "int \<Rightarrow> int \<Rightarrow> sysfs_hw" where
  "radeon_hw lvl mx = \<lparr>hw_level = lvl, hw_max = mx, hw_brightness_w = True, hw_actual_r = True,
     hw_max_r = True\<rparr>"

definition radeon_state :: "int \<Rightarrow> int \<Rightarrow> int \<Rightarrow> sysfs_state" where
  "radeon_state lvl mx stp = \<lparr>bck_driver = SYSFS_DRIVER_RADEON,
     lcd_bck_info = \<lparr>level = lvl, max_level = mx\<rparr>, lcd_sysfs_cfg = \<lparr>init = -1, step = stp\<rparr>,
     hw = radeon_hw lvl mx, stack_junk = [], dbus_lcd = []\<rparr>"

definition unprobed_state :: "sysfs_hw \<Rightarrow> int \<Rightarrow> int \<Rightarrow> sysfs_state" where
  "unprobed_state h i stp = \<lparr>bck_driver = SYSFS_DRIVER_NONE,
     lcd_bck_info = \<lparr>level = 0, max_level = 0\<rparr>, lcd_sysfs_cfg = \<lparr>init = i, step = stp\<rparr>,
     hw = h, stack_junk = [], dbus_lcd = []\<rparr>"

lemmas sysfs_defs [c_model_defs] =
  STEP_UP_def STEP_DOWN_def SYSFS_BACKLIGHT_OFF_def node_text_def kernel_parse_def
  brightness_store_def actual_brightness_def max_brightness_def brightness_def
  read_int_node_def sysfs_backlight_get_def sysfs_backlight_get_max_def
  sysfs_backlight_set_def sysfs_step_newval_def sysfs_backlight_step_def
  sysfs_backlight_fix_config_def r9600_sysfs_backlight_probe_def

lemmas sysfs_example_defs = radeon_hw_def radeon_state_def unprobed_state_def

subsection \<open>Reading, writing and the shape of a step\<close>

lemma kernel_parse_c_itoa: "kernel_parse (c_itoa v) = (if 0 \<le> v then Some v else None)"
proof (cases "0 \<le> v")
  case True
  then show ?thesis
    using nat_digits_all_digits [of "nat v"] digits_value_nat_digits [of 0 "nat v"]
    by (simp add: kernel_parse_def c_itoa_nonneg)
next
  case False
  then show ?thesis
    by (simp add: kernel_parse_def c_itoa_def is_digit_def)
qed

lemma read_int_node_text:
  assumes "0 \<le> v" "v < 1000" "digit_free_start junk"
  shows "read_int_node (Some (node_text v)) junk = v"
proof -
  let ?ds = "nat_digits (nat v)"
  have "nat v < 10 ^ 3"
    using assms(2) by simp
  then have len: "length ?ds \<le> 3"
    by (rule length_nat_digits_le) simp
  then have tk: "take 3 (?ds @ [nl]) = ?ds @ take (3 - length ?ds) [nl]"
    by simp
  have stop: "digit_free_start (take (3 - length ?ds) [nl] @ junk)"
    using assms(3) by (cases "3 - length ?ds") (simp_all add: digit_free_start_def nl_def is_digit_def)
  have "nat v < 2 ^ 31"
    using assms(2) by simp
  then show ?thesis
    using atoi_nat_digits [OF stop, of "nat v"] tk assms(1)
    by (simp add: read_int_node_def node_text_def c_itoa_nonneg)
qed

lemma sysfs_get_radeon:
  assumes "bck_driver s = SYSFS_DRIVER_RADEON" "hw_wf (hw s)" "digit_free_start (stack_junk s)"
  shows "sysfs_backlight_get s = (if hw_actual_r (hw s) then hw_level (hw s) else 0)"
  using assms read_int_node_text [of "hw_level (hw s)" "stack_junk s"]
  by (auto simp add: sysfs_backlight_get_def actual_brightness_def read_int_node_def hw_wf_def)

lemma sysfs_get_max_radeon:
  assumes "bck_driver s = SYSFS_DRIVER_RADEON" "hw_wf (hw s)" "digit_free_start (stack_junk s)"
  shows "sysfs_backlight_get_max s = (if hw_max_r (hw s) then hw_max (hw s) else 0)"
  using assms read_int_node_text [of "hw_max (hw s)" "stack_junk s"]
  by (auto simp add: sysfs_backlight_get_max_def max_brightness_def read_int_node_def hw_wf_def)

lemma sysfs_set_hw:
  "hw (sysfs_backlight_set v s) =
     (if bck_driver s = SYSFS_DRIVER_RADEON \<and> hw_brightness_w (hw s) \<and> 0 \<le> v \<and> v \<le> hw_max (hw s)
      then (hw s)\<lparr>hw_level := v\<rparr> else hw s)"
  by (cases "bck_driver s")
     (auto simp add: sysfs_backlight_set_def brightness_def brightness_store_def kernel_parse_c_itoa)

lemma sysfs_set_other [simp]:
  "bck_driver (sysfs_backlight_set v s) = bck_driver s"
  "lcd_bck_info (sysfs_backlight_set v s) = lcd_bck_info s"
  "lcd_sysfs_cfg (sysfs_backlight_set v s) = lcd_sysfs_cfg s"
  "stack_junk (sysfs_backlight_set v s) = stack_junk s"
  "dbus_lcd (sysfs_backlight_set v s) = dbus_lcd s"
  by (simp_all add: sysfs_backlight_set_def split: option.splits)

lemma sysfs_set_hw_wf: "hw_wf (hw s) \<Longrightarrow> hw_wf (hw (sysfs_backlight_set v s))"
  by (simp add: sysfs_set_hw hw_wf_def)

lemma sysfs_set_hw_flags [simp]:
  "hw_max (hw (sysfs_backlight_set v s)) = hw_max (hw s)"
  "hw_brightness_w (hw (sysfs_backlight_set v s)) = hw_brightness_w (hw s)"
  "hw_actual_r (hw (sysfs_backlight_set v s)) = hw_actual_r (hw s)"
  "hw_max_r (hw (sysfs_backlight_set v s)) = hw_max_r (hw s)"
  by (simp_all add: sysfs_set_hw)

lemma sysfs_step_eq:
  assumes "bck_driver s \<noteq> SYSFS_DRIVER_NONE"
    and "sysfs_step_newval dir (sysfs_backlight_get s) (step (lcd_sysfs_cfg s))
           (max_level (lcd_bck_info s)) = Some nv"
  shows "sysfs_backlight_step dir s =
           (sysfs_backlight_set nv s)\<lparr>dbus_lcd := dbus_lcd s @ [(nv, sysfs_backlight_get s)],
              lcd_bck_info := (lcd_bck_info s)\<lparr>level := nv\<rparr>\<rparr>"
  using assms by (simp add: sysfs_backlight_step_def Let_def)

lemma sysfs_step_noop:
  assumes "bck_driver s = SYSFS_DRIVER_NONE \<or>
           sysfs_step_newval dir (sysfs_backlight_get s) (step (lcd_sysfs_cfg s))
             (max_level (lcd_bck_info s)) = None"
  shows "sysfs_backlight_step dir s = s"
  using assms by (auto simp add: sysfs_backlight_step_def Let_def)

lemma sysfs_step_newval_bounds:
  assumes "sysfs_step_newval dir val stp mx = Some nv"
    and "0 \<le> stp" "SYSFS_BACKLIGHT_OFF \<le> val" "val \<le> mx"
  shows "SYSFS_BACKLIGHT_OFF \<le> nv \<and> nv \<le> mx"
  using assms
  by (auto simp add: sysfs_step_newval_def clamp_above_ge_iff clamp_below_le_iff split: if_splits)

lemma sysfs_get_bounds:
  assumes "bck_driver s = SYSFS_DRIVER_RADEON" "hw_wf (hw s)" "digit_free_start (stack_junk s)"
  shows "0 \<le> sysfs_backlight_get s \<and> sysfs_backlight_get s \<le> hw_max (hw s)"
  using assms by (simp add: sysfs_get_radeon hw_wf_def)

lemma sysfs_fix_config_other [simp]:
  "bck_driver (sysfs_backlight_fix_config s) = bck_driver s"
  "lcd_bck_info (sysfs_backlight_fix_config s) = lcd_bck_info s"
  "hw (sysfs_backlight_fix_config s) = hw s"
  "stack_junk (sysfs_backlight_fix_config s) = stack_junk s"
  "dbus_lcd (sysfs_backlight_fix_config s) = dbus_lcd s"
  by (simp_all add: sysfs_backlight_fix_config_def Let_def)

lemma sysfs_fix_config_cfg:
  "lcd_sysfs_cfg (sysfs_backlight_fix_config s) =
     \<lparr>init = clamp_above (max_level (lcd_bck_info s))
                (if init (lcd_sysfs_cfg s) < 0 then -1 else init (lcd_sysfs_cfg s)),
      step = clamp_above (max_level (lcd_bck_info s) sdiv 2) (clamp_below 1 (step (lcd_sysfs_cfg s)))\<rparr>"
  by (simp add: sysfs_backlight_fix_config_def Let_def clamp_above_def clamp_below_def)

lemma sysfs_fix_config_eq:
  "sysfs_backlight_fix_config s = s\<lparr>lcd_sysfs_cfg := lcd_sysfs_cfg (sysfs_backlight_fix_config s)\<rparr>"
  by (simp add: sysfs_backlight_fix_config_def Let_def)

lemma sysfs_set_eq:
  "sysfs_backlight_set v s = s\<lparr>hw := hw (sysfs_backlight_set v s)\<rparr>"
  by (simp add: sysfs_backlight_set_def split: option.splits)

lemma r9600_probe_success:
  assumes "hw_wf (hw s)" "digit_free_start (stack_junk s)"
    and "hw_brightness_w (hw s)" "hw_actual_r (hw s)"
  defines "mx \<equiv> (if hw_max_r (hw s) then hw_max (hw s) else 0)"
  defines "i \<equiv> clamp_above mx (if init (lcd_sysfs_cfg s) < 0 then -1 else init (lcd_sysfs_cfg s))"
  defines "h' \<equiv> (if -1 < i \<and> i \<le> hw_max (hw s) then (hw s)\<lparr>hw_level := i\<rparr> else hw s)"
  shows "r9600_sysfs_backlight_probe s =
           (0, s\<lparr>bck_driver := SYSFS_DRIVER_RADEON,
                 lcd_bck_info := \<lparr>level = hw_level h', max_level = mx\<rparr>,
                 lcd_sysfs_cfg := \<lparr>init = i,
                    step = clamp_above (mx sdiv 2) (clamp_below 1 (step (lcd_sysfs_cfg s)))\<rparr>,
                 hw := h'\<rparr>)"
proof -
  let ?s1 = "s\<lparr>bck_driver := SYSFS_DRIVER_RADEON\<rparr>"
  let ?s2 = "?s1\<lparr>lcd_bck_info := (lcd_bck_info ?s1)\<lparr>max_level := sysfs_backlight_get_max ?s1\<rparr>\<rparr>"
  let ?s3 = "sysfs_backlight_fix_config ?s2"
  let ?s4 = "if init (lcd_sysfs_cfg ?s3) > -1 then sysfs_backlight_set (init (lcd_sysfs_cfg ?s3)) ?s3 else ?s3"
  have m: "sysfs_backlight_get_max ?s1 = mx"
    using assms(1,2) by (simp add: sysfs_get_max_radeon mx_def)
  have c3: "lcd_sysfs_cfg ?s3 = \<lparr>init = i,
                    step = clamp_above (mx sdiv 2) (clamp_below 1 (step (lcd_sysfs_cfg s)))\<rparr>"
    by (simp add: sysfs_fix_config_cfg m i_def)
  have s4: "?s4 = ?s3\<lparr>hw := h'\<rparr>"
  proof (cases "-1 < i")
    case True
    then show ?thesis
      using c3 assms(3) sysfs_set_eq [of i ?s3]
      by (simp add: sysfs_set_hw h'_def)
  next
    case False
    then show ?thesis
      using c3 by (simp add: h'_def)
  qed
  have wf: "hw_wf h'"
    using assms(1) by (simp add: h'_def hw_wf_def)
  have g: "sysfs_backlight_get (?s3\<lparr>hw := h'\<rparr>) = hw_level h'"
    using wf assms(2,4) by (simp add: sysfs_get_radeon h'_def)
  have "r9600_sysfs_backlight_probe s =
          (0, (?s3\<lparr>hw := h'\<rparr>)\<lparr>lcd_bck_info := (lcd_bck_info ?s3)\<lparr>level := hw_level h'\<rparr>\<rparr>)"
    using assms(3,4) s4 g by (simp add: r9600_sysfs_backlight_probe_def Let_def)
  also have "\<dots> = (0, s\<lparr>bck_driver := SYSFS_DRIVER_RADEON,
                 lcd_bck_info := \<lparr>level = hw_level h', max_level = mx\<rparr>,
                 lcd_sysfs_cfg := \<lparr>init = i,
                    step = clamp_above (mx sdiv 2) (clamp_below 1 (step (lcd_sysfs_cfg s)))\<rparr>,
                 hw := h'\<rparr>)"
    using c3 m by (subst sysfs_fix_config_eq) simp
  finally show ?thesis .
qed

lemma r9600_probe_ret:
  "fst (r9600_sysfs_backlight_probe s) =
     (if hw_brightness_w (hw s) \<and> hw_actual_r (hw s) then 0 else -1)"
  by (simp add: r9600_sysfs_backlight_probe_def Let_def)

lemma sysfs_inv_radeon_facts:
  assumes "sysfs_inv s" "bck_driver s = SYSFS_DRIVER_RADEON"
  shows "max_level (lcd_bck_info s) = hw_max (hw s)" "0 \<le> step (lcd_sysfs_cfg s)"
    "step (lcd_sysfs_cfg s) \<le> max_level (lcd_bck_info s) sdiv 2"
    "-1 \<le> init (lcd_sysfs_cfg s)" "init (lcd_sysfs_cfg s) \<le> max_level (lcd_bck_info s)"
    "SYSFS_BACKLIGHT_OFF \<le> level (lcd_bck_info s)" "level (lcd_bck_info s) \<le> max_level (lcd_bck_info s)"
  using assms by (auto simp add: sysfs_inv_def Let_def)

lemma sysfs_step_active:
  assumes "sysfs_inv s" "bck_driver s = SYSFS_DRIVER_RADEON" "hw_wf (hw s)"
    "digit_free_start (stack_junk s)" "hw_actual_r (hw s)"
    and nv: "sysfs_step_newval dir (hw_level (hw s)) (step (lcd_sysfs_cfg s))
               (max_level (lcd_bck_info s)) = Some nv"
  shows "level (lcd_bck_info (sysfs_backlight_step dir s)) = nv \<and>
         hw (sysfs_backlight_step dir s) =
           (if hw_brightness_w (hw s) then (hw s)\<lparr>hw_level := nv\<rparr> else hw s) \<and>
         dbus_lcd (sysfs_backlight_step dir s) = dbus_lcd s @ [(nv, hw_level (hw s))]"
proof -
  have g: "sysfs_backlight_get s = hw_level (hw s)"
    using assms(2-5) by (simp add: sysfs_get_radeon)
  have b: "SYSFS_BACKLIGHT_OFF \<le> nv \<and> nv \<le> max_level (lcd_bck_info s)"
    using sysfs_step_newval_bounds [OF nv] sysfs_inv_radeon_facts [OF assms(1,2)] assms(3)
    by (simp add: hw_wf_def SYSFS_BACKLIGHT_OFF_def)
  show ?thesis
    using g b nv assms(2) sysfs_inv_radeon_facts [OF assms(1,2)]
    by (simp add: sysfs_step_eq sysfs_set_hw SYSFS_BACKLIGHT_OFF_def)
qed

text \<open>A three-digit level followed on the stack by one digit and then a byte that
  is not a digit is read as a four-digit number.\<close>

lemma sysfs_get_junk_digit:
  assumes "bck_driver s = SYSFS_DRIVER_RADEON" "hw_wf (hw s)" "hw_actual_r (hw s)"
    "100 \<le> hw_level (hw s)" "stack_junk s = d # rest" "is_digit d" "digit_free_start rest"
  shows "sysfs_backlight_get s = 10 * hw_level (hw s) + digit_val d"
proof -
  let ?n = "nat (hw_level (hw s))"
  have n: "100 \<le> ?n" "?n < 1000"
    using assms(2,4) by (simp_all add: hw_wf_def nat_less_iff le_nat_iff)
  then have len: "length (nat_digits ?n) = 3"
    by (rule nat_digits_three)
  have buf: "take 3 (node_text (hw_level (hw s))) = nat_digits ?n"
    using len assms(4) by (simp add: node_text_def c_itoa_nonneg)
  have hd: "is_digit (hd (nat_digits ?n))"
    by (rule nat_digits_hd_digit)
  obtain c cs where ds: "nat_digits ?n = c # cs"
    by (cases "nat_digits ?n") auto
  have dv: "0 \<le> digit_val d" "digit_val d \<le> 9"
    using assms(6) by (simp_all add: is_digit_def digit_val_def)
  have "strtol_value (nat_digits ?n @ d # rest) = atoi_digits 0 (nat_digits ?n @ d # rest)"
    using hd ds atoi_digit_start [of c "cs @ d # rest"] by simp
  also have "\<dots> = atoi_digits (int ?n) (d # rest)"
    using nat_digits_all_digits [of ?n] digits_value_nat_digits [of 0 ?n]
    by (simp add: atoi_digits_append)
  also have "\<dots> = 10 * int ?n + digit_val d"
    using assms(6,7) by (simp add: atoi_digits_stop)
  finally have v: "strtol_value (nat_digits ?n @ d # rest) = 10 * hw_level (hw s) + digit_val d"
    using assms(4) by simp
  have "atoi (nat_digits ?n @ d # rest) = 10 * hw_level (hw s) + digit_val d"
    using v dv n assms(4) by (subst atoi_in_range) simp_all
  then show ?thesis
    using assms(1,3,5) buf ds
    by (simp add: sysfs_backlight_get_def actual_brightness_def read_int_node_def)
qed

subsection \<open>Stepping\<close>

text \<open>
  C1. Clamping invariant of \<open>sysfs_backlight_step\<close>: on a well-formed sysfs node
  (level within \<open>[0, max_brightness]\<close>, three digits at most, no digit on the stack
  after the read buffer), a step in any direction from a state satisfying the driver
  invariant leaves the in-memory level within \<open>[SYSFS_BACKLIGHT_OFF, max]\<close>, the
  configuration fixed and the node well-formed.
\<close>

theorem sysfs_step_preserves_inv:
  assumes "sysfs_inv s" "hw_wf (hw s)" "digit_free_start (stack_junk s)"
  shows "sysfs_inv (sysfs_backlight_step dir s) \<and> hw_wf (hw (sysfs_backlight_step dir s))"
proof (cases "bck_driver s = SYSFS_DRIVER_NONE \<or>
              sysfs_step_newval dir (sysfs_backlight_get s) (step (lcd_sysfs_cfg s))
                (max_level (lcd_bck_info s)) = None")
  case True
  then show ?thesis
    using assms by (simp add: sysfs_step_noop)
next
  case False
  then obtain nv where drv: "bck_driver s = SYSFS_DRIVER_RADEON"
    and nv: "sysfs_step_newval dir (sysfs_backlight_get s) (step (lcd_sysfs_cfg s))
               (max_level (lcd_bck_info s)) = Some nv"
    by (cases "bck_driver s") auto
  have inv: "max_level (lcd_bck_info s) = hw_max (hw s)" "0 \<le> step (lcd_sysfs_cfg s)"
    "step (lcd_sysfs_cfg s) \<le> max_level (lcd_bck_info s) sdiv 2"
    "-1 \<le> init (lcd_sysfs_cfg s)" "init (lcd_sysfs_cfg s) \<le> max_level (lcd_bck_info s)"
    using assms(1) drv by (auto simp add: sysfs_inv_def Let_def)
  have "SYSFS_BACKLIGHT_OFF \<le> nv \<and> nv \<le> max_level (lcd_bck_info s)"
    using sysfs_step_newval_bounds [OF nv] inv sysfs_get_bounds [OF drv assms(2,3)]
    by (simp add: SYSFS_BACKLIGHT_OFF_def)
  then show ?thesis
    using assms(2) inv drv sysfs_set_hw_wf [OF assms(2)]
    by (simp add: sysfs_step_eq [OF _ nv] sysfs_inv_def)
qed

lemma sysfs_step_preserves_inv_example:
  "sysfs_inv (sysfs_backlight_step STEP_UP (radeon_state 240 255 50)) \<and>
   hw_wf (hw (sysfs_backlight_step STEP_UP (radeon_state 240 255 50)))"
  using sysfs_step_preserves_inv [of "radeon_state 240 255 50" STEP_UP]
  by (simp add: sysfs_example_defs sysfs_inv_def hw_wf_def digit_free_start_def SYSFS_BACKLIGHT_OFF_def)

text \<open>
  C2. Stepping up (\<open>sysfs_backlight_step STEP_UP\<close>) on an active, readable and writable
  node sets both the in-memory level and the hardware level to
  \<open>min (val + step) max\<close>, where \<open>val\<close> is the hardware level read first, and sends
  the D-Bus notification \<open>(new, old)\<close>.
\<close>

theorem sysfs_step_up_clamps:
  assumes "sysfs_inv s" "bck_driver s = SYSFS_DRIVER_RADEON" "hw_wf (hw s)"
    "digit_free_start (stack_junk s)" "hw_actual_r (hw s)" "hw_brightness_w (hw s)"
  shows "let nv = min (hw_level (hw s) + step (lcd_sysfs_cfg s)) (max_level (lcd_bck_info s)) in
         level (lcd_bck_info (sysfs_backlight_step STEP_UP s)) = nv \<and>
         hw_level (hw (sysfs_backlight_step STEP_UP s)) = nv \<and>
         dbus_lcd (sysfs_backlight_step STEP_UP s) = dbus_lcd s @ [(nv, hw_level (hw s))]"
proof -
  have "sysfs_step_newval STEP_UP (hw_level (hw s)) (step (lcd_sysfs_cfg s)) (max_level (lcd_bck_info s))
        = Some (min (hw_level (hw s) + step (lcd_sysfs_cfg s)) (max_level (lcd_bck_info s)))"
    by (simp add: sysfs_step_newval_def clamp_above_def)
  from sysfs_step_active [OF assms(1-5) this] assms(6) show ?thesis
    by (simp add: Let_def)
qed

lemma sysfs_step_up_clamps_example:
  "let s = radeon_state 240 255 50 in
   level (lcd_bck_info (sysfs_backlight_step STEP_UP s)) = 255 \<and>
   hw_level (hw (sysfs_backlight_step STEP_UP s)) = 255 \<and>
   dbus_lcd (sysfs_backlight_step STEP_UP s) = [(255, 240)]"
  using sysfs_step_up_clamps [of "radeon_state 240 255 50"]
  by (simp add: sysfs_example_defs sysfs_inv_def hw_wf_def digit_free_start_def SYSFS_BACKLIGHT_OFF_def)

text \<open>
  C3. Stepping down sets both levels to \<open>max (val - step) SYSFS_BACKLIGHT_OFF\<close>
  and sends the notification \<open>(new, old)\<close>.
\<close>

theorem sysfs_step_down_clamps:
  assumes "sysfs_inv s" "bck_driver s = SYSFS_DRIVER_RADEON" "hw_wf (hw s)"
    "digit_free_start (stack_junk s)" "hw_actual_r (hw s)" "hw_brightness_w (hw s)"
  shows "let nv = max (hw_level (hw s) - step (lcd_sysfs_cfg s)) SYSFS_BACKLIGHT_OFF in
         level (lcd_bck_info (sysfs_backlight_step STEP_DOWN s)) = nv \<and>
         hw_level (hw (sysfs_backlight_step STEP_DOWN s)) = nv \<and>
         dbus_lcd (sysfs_backlight_step STEP_DOWN s) = dbus_lcd s @ [(nv, hw_level (hw s))]"
proof -
  have "sysfs_step_newval STEP_DOWN (hw_level (hw s)) (step (lcd_sysfs_cfg s)) (max_level (lcd_bck_info s))
        = Some (max (hw_level (hw s) - step (lcd_sysfs_cfg s)) SYSFS_BACKLIGHT_OFF)"
    by (simp add: sysfs_step_newval_def clamp_below_def STEP_UP_def STEP_DOWN_def)
  from sysfs_step_active [OF assms(1-5) this] assms(6) show ?thesis
    by (simp add: Let_def)
qed

lemma sysfs_step_down_clamps_example:
  "let s = radeon_state 20 255 50 in
   level (lcd_bck_info (sysfs_backlight_step STEP_DOWN s)) = 0 \<and>
   hw_level (hw (sysfs_backlight_step STEP_DOWN s)) = 0 \<and>
   dbus_lcd (sysfs_backlight_step STEP_DOWN s) = [(0, 20)]"
  using sysfs_step_down_clamps [of "radeon_state 20 255 50"]
  by (simp add: sysfs_example_defs sysfs_inv_def hw_wf_def digit_free_start_def SYSFS_BACKLIGHT_OFF_def)

text \<open>
  C9. Stepping with no active driver, or with a direction that is neither
  \<open>STEP_UP\<close> nor \<open>STEP_DOWN\<close>, leaves the whole state unchanged.
\<close>

theorem sysfs_step_noop_cases:
  assumes "bck_driver s = SYSFS_DRIVER_NONE \<or> (dir \<noteq> STEP_UP \<and> dir \<noteq> STEP_DOWN)"
  shows "sysfs_backlight_step dir s = s"
  using assms by (auto intro: sysfs_step_noop simp add: sysfs_step_newval_def)

lemma sysfs_step_noop_cases_example:
  "sysfs_backlight_step 0 (radeon_state 240 255 50) = radeon_state 240 255 50"
  by (rule sysfs_step_noop_cases) (simp add: STEP_UP_def STEP_DOWN_def)

text \<open>
  C10. The misread of C13 breaks the driver invariant. When a digit on the stack
  turns the level read into a four-digit number that exceeds the maximum by more
  than the step, \<open>STEP_DOWN\<close> computes a new level above the maximum. The kernel
  refuses to store it, so the hardware is unchanged, but the code stores it in
  \<open>lcd_bck_info.level\<close> anyway, which leaves \<open>sysfs_inv\<close> false.
\<close>

theorem sysfs_step_down_junk_breaks_inv:
  assumes "sysfs_inv s" "bck_driver s = SYSFS_DRIVER_RADEON" "hw_wf (hw s)" "hw_actual_r (hw s)"
    "100 \<le> hw_level (hw s)" "stack_junk s = d # rest" "is_digit d" "digit_free_start rest"
    "hw_max (hw s) + step (lcd_sysfs_cfg s) < 10 * hw_level (hw s)"
  shows "level (lcd_bck_info (sysfs_backlight_step STEP_DOWN s)) =
           10 * hw_level (hw s) + digit_val d - step (lcd_sysfs_cfg s) \<and>
         hw (sysfs_backlight_step STEP_DOWN s) = hw s \<and>
         \<not> sysfs_inv (sysfs_backlight_step STEP_DOWN s)"
proof -
  let ?val = "10 * hw_level (hw s) + digit_val d"
  let ?nv = "?val - step (lcd_sysfs_cfg s)"
  have g: "sysfs_backlight_get s = ?val"
    using assms(2-8) by (rule sysfs_get_junk_digit)
  have dv: "0 \<le> digit_val d"
    using assms(7) by (simp add: is_digit_def digit_val_def)
  have f: "max_level (lcd_bck_info s) = hw_max (hw s)" "0 \<le> hw_max (hw s)"
    using sysfs_inv_radeon_facts [OF assms(1,2)] assms(3) by (simp_all add: hw_wf_def)
  have big: "hw_max (hw s) < ?nv"
    using assms(9) dv by simp
  have nv: "sysfs_step_newval STEP_DOWN (sysfs_backlight_get s) (step (lcd_sysfs_cfg s))
              (max_level (lcd_bck_info s)) = Some ?nv"
    using g big f by (simp add: sysfs_step_newval_def STEP_DOWN_def STEP_UP_def clamp_below_def
        SYSFS_BACKLIGHT_OFF_def)
  have st: "sysfs_backlight_step STEP_DOWN s =
              (sysfs_backlight_set ?nv s)\<lparr>dbus_lcd := dbus_lcd s @ [(?nv, sysfs_backlight_get s)],
                 lcd_bck_info := (lcd_bck_info s)\<lparr>level := ?nv\<rparr>\<rparr>"
    using assms(2) nv by (intro sysfs_step_eq) simp_all
  have "hw (sysfs_backlight_set ?nv s) = hw s"
    using big by (simp add: sysfs_set_hw)
  then show ?thesis
    using st big f assms(2) by (simp add: sysfs_inv_def Let_def)
qed

lemma sysfs_step_down_junk_breaks_inv_example:
  "let s = (radeon_state 240 255 50)\<lparr>stack_junk := ''7''\<rparr> in
   sysfs_inv s \<and> level (lcd_bck_info (sysfs_backlight_step STEP_DOWN s)) = 2357 \<and>
   hw (sysfs_backlight_step STEP_DOWN s) = hw s \<and> \<not> sysfs_inv (sysfs_backlight_step STEP_DOWN s)"
proof -
  let ?s = "(radeon_state 240 255 50)\<lparr>stack_junk := ''7''\<rparr>"
  have i: "sysfs_inv ?s"
    by (simp add: sysfs_example_defs sysfs_inv_def SYSFS_BACKLIGHT_OFF_def)
  have h: "bck_driver ?s = SYSFS_DRIVER_RADEON" "hw_wf (hw ?s)" "hw_actual_r (hw ?s)"
    "100 \<le> hw_level (hw ?s)" "stack_junk ?s = CHR ''7'' # []" "is_digit (CHR ''7'')"
    "digit_free_start []" "hw_max (hw ?s) + step (lcd_sysfs_cfg ?s) < 10 * hw_level (hw ?s)"
    by (simp_all add: sysfs_example_defs hw_wf_def is_digit_def digit_free_start_def)
  from sysfs_step_down_junk_breaks_inv [OF i h] i show ?thesis
    by (simp add: sysfs_example_defs digit_val_def Let_def)
qed

text \<open>
  C12. When the \<open>brightness\<close> node cannot be opened, a step leaves the hardware
  unchanged but still stores the new value in \<open>lcd_bck_info.level\<close>.
\<close>

theorem sysfs_step_failed_write_desync:
  assumes "sysfs_inv s" "bck_driver s = SYSFS_DRIVER_RADEON" "hw_wf (hw s)"
    "digit_free_start (stack_junk s)" "hw_actual_r (hw s)" "\<not> hw_brightness_w (hw s)"
  shows "hw (sysfs_backlight_step STEP_UP s) = hw s \<and>
         level (lcd_bck_info (sysfs_backlight_step STEP_UP s)) =
           min (hw_level (hw s) + step (lcd_sysfs_cfg s)) (max_level (lcd_bck_info s))"
proof -
  have "sysfs_step_newval STEP_UP (hw_level (hw s)) (step (lcd_sysfs_cfg s)) (max_level (lcd_bck_info s))
        = Some (min (hw_level (hw s) + step (lcd_sysfs_cfg s)) (max_level (lcd_bck_info s)))"
    by (simp add: sysfs_step_newval_def clamp_above_def)
  from sysfs_step_active [OF assms(1-5) this] assms(6) show ?thesis
    by simp
qed

lemma sysfs_step_failed_write_desync_example:
  "let s = (radeon_state 240 255 50)\<lparr>hw := (radeon_hw 240 255)\<lparr>hw_brightness_w := False\<rparr>\<rparr> in
   hw_level (hw (sysfs_backlight_step STEP_UP s)) = 240 \<and>
   level (lcd_bck_info (sysfs_backlight_step STEP_UP s)) = 255"
  using sysfs_step_failed_write_desync
          [of "(radeon_state 240 255 50)\<lparr>hw := (radeon_hw 240 255)\<lparr>hw_brightness_w := False\<rparr>\<rparr>"]
  by (simp add: sysfs_example_defs sysfs_inv_def hw_wf_def digit_free_start_def SYSFS_BACKLIGHT_OFF_def)

subsection \<open>Probing and fixing the configuration\<close>

text \<open>
  C4. A successful \<open>r9600_sysfs_backlight_probe\<close> on a well-formed node whose
  \<open>max_brightness\<close> is readable activates the Radeon driver and establishes the
  driver invariant: maximum read from the kernel, configuration fixed against it,
  level in range.
\<close>

theorem r9600_probe_establishes_inv:
  assumes "hw_wf (hw s)" "digit_free_start (stack_junk s)" "hw_max_r (hw s)"
    and ok: "fst (r9600_sysfs_backlight_probe s) = 0"
  shows "bck_driver (snd (r9600_sysfs_backlight_probe s)) = SYSFS_DRIVER_RADEON \<and>
         sysfs_inv (snd (r9600_sysfs_backlight_probe s)) \<and> hw_wf (hw (snd (r9600_sysfs_backlight_probe s)))"
proof -
  have acc: "hw_brightness_w (hw s)" "hw_actual_r (hw s)"
    using ok by (auto simp add: r9600_sysfs_backlight_probe_def split: if_splits)
  have mx: "0 \<le> hw_max (hw s)" "hw_level (hw s) \<le> hw_max (hw s)" "0 \<le> hw_level (hw s)"
    using assms(1) by (simp_all add: hw_wf_def)
  show ?thesis
    using r9600_probe_success [OF assms(1,2) acc] assms(1,3) mx
    by (auto simp add: sysfs_inv_def hw_wf_def clamp_above_def clamp_below_def SYSFS_BACKLIGHT_OFF_def)
qed

lemma r9600_probe_establishes_inv_example:
  "let s = unprobed_state (radeon_hw 100 255) 300 500 in
   hw_wf (hw s) \<and> digit_free_start (stack_junk s) \<and> hw_max_r (hw s) \<and>
   fst (r9600_sysfs_backlight_probe s) = 0 \<and>
   bck_driver (snd (r9600_sysfs_backlight_probe s)) = SYSFS_DRIVER_RADEON \<and>
   sysfs_inv (snd (r9600_sysfs_backlight_probe s)) \<and> hw_wf (hw (snd (r9600_sysfs_backlight_probe s)))"
proof -
  let ?s = "unprobed_state (radeon_hw 100 255) 300 500"
  have h: "hw_wf (hw ?s)" "digit_free_start (stack_junk ?s)" "hw_max_r (hw ?s)"
    by (simp_all add: sysfs_example_defs hw_wf_def digit_free_start_def)
  have ok: "fst (r9600_sysfs_backlight_probe ?s) = 0"
    by (simp add: r9600_sysfs_backlight_probe_def sysfs_example_defs Let_def)
  show ?thesis
    using r9600_probe_establishes_inv [OF h ok] h ok by (simp add: Let_def)
qed

text \<open>
  C5. When both access checks pass and the maximum is readable, the probe succeeds,
  clamps \<open>init\<close> into \<open>[-1, max]\<close>, writes it to the hardware only when the
  configured value is not negative, and reads the resulting hardware level back
  into \<open>lcd_bck_info.level\<close>.
\<close>

theorem r9600_probe_initial_level:
  assumes "hw_wf (hw s)" "digit_free_start (stack_junk s)"
    "hw_brightness_w (hw s)" "hw_actual_r (hw s)" "hw_max_r (hw s)"
  shows "let s' = snd (r9600_sysfs_backlight_probe s);
             i = min (hw_max (hw s)) (max (-1) (init (lcd_sysfs_cfg s))) in
         fst (r9600_sysfs_backlight_probe s) = 0 \<and> init (lcd_sysfs_cfg s') = i \<and>
         hw_level (hw s') = (if init (lcd_sysfs_cfg s) < 0 then hw_level (hw s) else i) \<and>
         level (lcd_bck_info s') = hw_level (hw s')"
  using r9600_probe_success [OF assms(1-4)] assms(1,5)
  by (auto simp add: Let_def hw_wf_def clamp_above_def)

lemma r9600_probe_initial_level_example:
  "let s = unprobed_state (radeon_hw 100 255) 300 500; s' = snd (r9600_sysfs_backlight_probe s) in
   init (lcd_sysfs_cfg s') = 255 \<and> hw_level (hw s') = 255 \<and> level (lcd_bck_info s') = 255"
  using r9600_probe_initial_level [of "unprobed_state (radeon_hw 100 255) 300 500"]
  by (simp add: sysfs_example_defs hw_wf_def digit_free_start_def Let_def)

text \<open>
  C6. When the \<open>brightness\<close> node is not writable or \<open>actual_brightness\<close> is not
  readable, the probe returns -1 and changes nothing (no driver is selected).
\<close>

theorem r9600_probe_fails:
  assumes "\<not> hw_brightness_w (hw s) \<or> \<not> hw_actual_r (hw s)"
  shows "r9600_sysfs_backlight_probe s = (-1, s)"
  using assms by (auto simp add: r9600_sysfs_backlight_probe_def)

lemma r9600_probe_fails_example:
  "let s = unprobed_state ((radeon_hw 100 255)\<lparr>hw_actual_r := False\<rparr>) 300 500 in
   (\<not> hw_brightness_w (hw s) \<or> \<not> hw_actual_r (hw s)) \<and> r9600_sysfs_backlight_probe s = (-1, s)"
  using r9600_probe_fails [of "unprobed_state ((radeon_hw 100 255)\<lparr>hw_actual_r := False\<rparr>) 300 500"]
  by (simp add: sysfs_example_defs Let_def)

text \<open>
  C11. If \<open>max_brightness\<close> cannot be read, the probe still succeeds with maximum 0,
  the step becomes 0 and a non-negative configured \<open>init\<close> is clamped to 0 and
  written: the panel is switched off and can never be stepped up.
\<close>

theorem r9600_probe_unreadable_max:
  assumes "hw_wf (hw s)" "digit_free_start (stack_junk s)"
    "hw_brightness_w (hw s)" "hw_actual_r (hw s)" "\<not> hw_max_r (hw s)"
    "0 \<le> init (lcd_sysfs_cfg s)"
  shows "let s' = snd (r9600_sysfs_backlight_probe s) in
         fst (r9600_sysfs_backlight_probe s) = 0 \<and> max_level (lcd_bck_info s') = 0 \<and>
         step (lcd_sysfs_cfg s') = 0 \<and> hw_level (hw s') = 0 \<and> level (lcd_bck_info s') = 0"
  using r9600_probe_success [OF assms(1-4)] assms(1,5,6)
  by (simp add: Let_def hw_wf_def clamp_above_def clamp_below_def)

lemma r9600_probe_unreadable_max_example:
  "let s = unprobed_state ((radeon_hw 200 255)\<lparr>hw_max_r := False\<rparr>) 100 10;
       s' = snd (r9600_sysfs_backlight_probe s) in
   fst (r9600_sysfs_backlight_probe s) = 0 \<and> hw_level (hw s') = 0 \<and> step (lcd_sysfs_cfg s') = 0"
  using r9600_probe_unreadable_max [of "unprobed_state ((radeon_hw 200 255)\<lparr>hw_max_r := False\<rparr>) 100 10"]
  by (simp add: sysfs_example_defs hw_wf_def digit_free_start_def Let_def)

text \<open>
  C7. \<open>sysfs_backlight_fix_config\<close> sets \<open>step\<close> to the configured step clamped into
  \<open>[1, max / 2]\<close> when the maximum is at least 2; for a smaller maximum the range is
  empty and the step becomes \<open>max / 2\<close> (C division), which is 0 or negative.
\<close>

theorem sysfs_fix_config_step:
  "step (lcd_sysfs_cfg (sysfs_backlight_fix_config s)) =
     (let mx = max_level (lcd_bck_info s) in
      if mx < 2 then mx sdiv 2 else max 1 (min (step (lcd_sysfs_cfg s)) (mx div 2)))"
proof -
  let ?mx = "max_level (lcd_bck_info s)"
  have "?mx < 2 \<Longrightarrow> ?mx sdiv 2 \<le> 0"
    by (cases "0 \<le> ?mx") (auto simp add: signed_divide_int_def sgn_if)
  then show ?thesis
    by (auto simp add: sysfs_fix_config_cfg clamp_above_def clamp_below_def Let_def)
qed

subsection \<open>Writing and reading back\<close>

text \<open>
  C8. Writing an in-range level with \<open>sysfs_backlight_set\<close> and reading it back with
  \<open>sysfs_backlight_get\<close> gives the level written (set/get round trip through
  \<open>printf\<close>, the kernel's parser and \<open>atoi\<close>).
\<close>

theorem sysfs_set_get_roundtrip:
  assumes "bck_driver s = SYSFS_DRIVER_RADEON" "hw_wf (hw s)" "digit_free_start (stack_junk s)"
    "hw_brightness_w (hw s)" "hw_actual_r (hw s)" "0 \<le> v" "v \<le> hw_max (hw s)"
  shows "sysfs_backlight_get (sysfs_backlight_set v s) = v"
proof -
  have "hw_wf (hw (sysfs_backlight_set v s))"
    using assms(2) by (rule sysfs_set_hw_wf)
  then show ?thesis
    using assms by (simp add: sysfs_get_radeon sysfs_set_hw)
qed

lemma sysfs_set_get_roundtrip_example:
  "sysfs_backlight_get (sysfs_backlight_set 128 (radeon_state 240 255 50)) = 128"
  by (rule sysfs_set_get_roundtrip) (simp_all add: sysfs_example_defs hw_wf_def digit_free_start_def)

subsection \<open>The three-byte read buffer\<close>

text \<open>
  C13. \<open>char buffer[4]\<close> is filled with at most three bytes and never terminated.
  For a three-digit level, a digit left on the stack right after the buffer is read
  as the fourth digit of the number: \<open>sysfs_backlight_get\<close> returns ten times the
  level plus that digit, which is more than the kernel's maximum.
\<close>

theorem sysfs_get_stack_junk_misread:
  assumes "bck_driver s = SYSFS_DRIVER_RADEON" "hw_wf (hw s)" "hw_actual_r (hw s)"
    "100 \<le> hw_level (hw s)" "stack_junk s = d # rest" "is_digit d" "digit_free_start rest"
  shows "sysfs_backlight_get s = 10 * hw_level (hw s) + digit_val d \<and>
         hw_max (hw s) < sysfs_backlight_get s"
proof -
  have g: "sysfs_backlight_get s = 10 * hw_level (hw s) + digit_val d"
    using assms by (rule sysfs_get_junk_digit)
  have "0 \<le> digit_val d"
    using assms(6) by (simp add: is_digit_def digit_val_def)
  with g assms(2,4) show ?thesis
    by (simp add: hw_wf_def)
qed

lemma sysfs_get_stack_junk_misread_example:
  "sysfs_backlight_get ((radeon_state 240 255 50)\<lparr>stack_junk := ''7''\<rparr>) = 2407 \<and>
   hw_max (hw ((radeon_state 240 255 50)\<lparr>stack_junk := ''7''\<rparr>)) <
   sysfs_backlight_get ((radeon_state 240 255 50)\<lparr>stack_junk := ''7''\<rparr>)"
  using sysfs_get_stack_junk_misread [of "(radeon_state 240 255 50)\<lparr>stack_junk := ''7''\<rparr>" "CHR ''7''" "[]"]
  by (simp add: sysfs_example_defs hw_wf_def is_digit_def digit_val_def digit_free_start_def)

text \<open>
  C14. Only three bytes are read, so a four-digit \<open>max_brightness\<close> loses its last
  digit: \<open>sysfs_backlight_get_max\<close> returns the kernel's maximum divided by ten.
\<close>

theorem sysfs_get_max_truncates:
  assumes "bck_driver s = SYSFS_DRIVER_RADEON" "hw_max_r (hw s)"
    "1000 \<le> hw_max (hw s)" "hw_max (hw s) < 10000" "digit_free_start (stack_junk s)"
  shows "sysfs_backlight_get_max s = hw_max (hw s) div 10"
proof -
  let ?n = "nat (hw_max (hw s))"
  have len: "length (nat_digits (?n div 10)) = 3"
    using assms(3,4) by (intro nat_digits_three) simp_all
  have ds: "nat_digits ?n = nat_digits (?n div 10) @ [digit_char (?n mod 10)]"
    using assms(3) by (subst nat_digits.simps) simp
  have buf: "take 3 (node_text (hw_max (hw s))) = nat_digits (?n div 10)"
    using len ds assms(3) by (simp add: node_text_def c_itoa_nonneg)
  have "?n div 10 < 2 ^ 31"
    using assms(4) by simp
  then have "atoi (nat_digits (?n div 10) @ stack_junk s) = int (?n div 10)"
    using assms(5) by (intro atoi_nat_digits)
  moreover have "int (?n div 10) = hw_max (hw s) div 10"
    using assms(3) by (simp add: zdiv_int)
  ultimately show ?thesis
    using assms(1,2) buf
    by (simp add: sysfs_backlight_get_max_def max_brightness_def read_int_node_def)
qed

lemma sysfs_get_max_truncates_example:
  "sysfs_backlight_get_max (radeon_state 100 1023 50) = 102"
  using sysfs_get_max_truncates [of "radeon_state 100 1023 50"]
  by (simp add: sysfs_example_defs digit_free_start_def)

end
