(* ===== verification/Logging.thy ===== *)
theory Logging
  imports CText
begin

unbundle bit_operations_syntax

text \<open>
  \<open>logmsg\<close> of \<open>src/src/mbpeventd.c\<close> (lines 102--139), the only output channel of
  the daemon. In debug mode (\<open>-f\<close>) a message goes to standard error, after a prefix
  that names its level, and ends with a newline. Otherwise it goes to \<open>vsyslog\<close>,
  with the level combined with the facility \<open>LOG_DAEMON\<close>. A message is the text
  after \<open>printf\<close>-style formatting. The two outputs are the fields of
  \<open>log_sink\<close>. The constants are those of \<open>syslog.h\<close>, and \<open>LOG_PRI\<close> and
  \<open>LOG_FAC\<close> are the macros a syslog daemon uses to take a priority apart.
\<close>

definition LOG_ERR :: int where "LOG_ERR = 3"
definition LOG_WARNING :: int where "LOG_WARNING = 4"
definition LOG_INFO :: int where "LOG_INFO = 6"
definition LOG_DAEMON :: int where "LOG_DAEMON = push_bit 3 3"

definition LOG_PRI :: "int \<Rightarrow> int" where
  "LOG_PRI p = p AND 7"

definition LOG_FAC :: "int \<Rightarrow> int" where
  "LOG_FAC p = drop_bit 3 (p AND 1016)"

record log_sink =
  stderr_text :: string
  syslog_msgs :: "(int \<times> string) list"

text \<open>The \<open>switch (level)\<close> of the debug branch.\<close>

definition log_prefix :: "int \<Rightarrow> string" where
  "log_prefix level =
     (if level = LOG_INFO then ''I: ''
      else if level = LOG_WARNING then ''W: ''
      else if level = LOG_ERR then ''E: ''
      else [])"

definition logmsg :: "bool \<Rightarrow> int \<Rightarrow> string \<Rightarrow> log_sink \<Rightarrow> log_sink" where
  "logmsg debug level msg out =
     (if debug then out\<lparr>stderr_text := stderr_text out @ log_prefix level @ msg @ [nl]\<rparr>
      else out\<lparr>syslog_msgs := syslog_msgs out @ [(level OR LOG_DAEMON, msg)]\<rparr>)"

text \<open>A sequence of messages, as \<open>(level, text)\<close> pairs, logged in order.\<close>

definition log_all :: "bool \<Rightarrow> (int \<times> string) list \<Rightarrow> log_sink \<Rightarrow> log_sink" where
  "log_all debug ms out = fold (\<lambda>(l, m). logmsg debug l m) ms out"

definition log_level_ok :: "int \<Rightarrow> bool" where
  "log_level_ok l \<longleftrightarrow> l \<in> {LOG_ERR, LOG_WARNING, LOG_INFO}"

lemmas log_defs [c_model_defs] =
  LOG_ERR_def LOG_WARNING_def LOG_INFO_def LOG_DAEMON_def LOG_PRI_def LOG_FAC_def
  log_prefix_def logmsg_def log_level_ok_def

subsection \<open>Properties of the log channel\<close>

text \<open>The priority handed to \<open>vsyslog\<close> decodes back to the level and to the daemon
  facility, for every level \<open>0\<close>--\<open>7\<close> of \<open>syslog.h\<close>.\<close>

lemma syslog_priority_decode:
  assumes "0 \<le> l" "l \<le> 7"
  shows "LOG_PRI (l OR LOG_DAEMON) = l \<and> LOG_FAC (l OR LOG_DAEMON) = 3"
proof -
  have "l \<in> {0, 1, 2, 3, 4, 5, 6, 7}"
    using assms by auto
  then show ?thesis
    by (auto simp add: LOG_PRI_def LOG_FAC_def LOG_DAEMON_def)
qed

lemma log_all_syslog:
  "\<not> debug \<Longrightarrow>
   log_all debug ms out = out\<lparr>syslog_msgs := syslog_msgs out @ map (\<lambda>(l, m). (l OR LOG_DAEMON, m)) ms\<rparr>"
  by (induction ms arbitrary: out) (auto simp add: log_all_def logmsg_def)

lemma log_all_debug:
  "debug \<Longrightarrow>
   log_all debug ms out =
     out\<lparr>stderr_text := stderr_text out @ concat (map (\<lambda>(l, m). log_prefix l @ m @ [nl]) ms)\<rparr>"
  by (induction ms arbitrary: out) (auto simp add: log_all_def logmsg_def)

lemma log_all_append:
  "log_all debug (ms @ ms') out = log_all debug ms' (log_all debug ms out)"
  by (simp add: log_all_def)

end
