(* ===== verification/Machine.thy ===== *)
theory Machine
  imports Logging
begin

text \<open>
  Machine identification and the capability table of \<open>src/src/mbpeventd.c\<close>.
  \<open>check_machine_smbios\<close> (lines 141--192) is modelled over the firmware strings
  it queries and the effective user id. Besides the machine type it returns the
  queries it made, so that "no model query for a foreign vendor" is a statement about
  the model, and the messages it hands to \<open>logmsg\<close>. Its \<open>logdebug\<close> lines are
  left out, because that macro is defined in a header that is not in the sources. The four
  \<open>struct machine_ops\<close> tables (lines 52--90) are records whose function pointers
  are tags naming the driver they point to (the drivers are not in the sources),
  and the \<open>switch\<close> of \<open>main\<close> that selects one (lines 274--308) is the partial
  function \<open>select_mops\<close>: \<open>None\<close> is the \<open>exit(1)\<close> of its error cases.
\<close>

subsection \<open>Data\<close>

text \<open>\<open>machine_type\<close> of \<open>mbpeventd.h\<close> (the header is not in the sources; the
  constructors are the values \<open>mbpeventd.c\<close> uses).\<close>

datatype machine_type =
    MACHINE_ERROR
  | MACHINE_UNKNOWN
  | MACHINE_MAC_UNKNOWN
  | MACHINE_MACBOOKPRO_1
  | MACHINE_MACBOOKPRO_2
  | MACHINE_MACBOOK_1
  | MACHINE_MACBOOK_2

text \<open>The firmware and process facts \<open>check_machine_smbios\<close> reads.\<close>

record smbios_env =
  euid :: nat
  vendor_name :: string
  system_name :: string

datatype smbios_query = SMBIOS_VENDOR_NAME | SMBIOS_SYSTEM_NAME

record smbios_result =
  machine :: machine_type
  queries :: "smbios_query list"
  smbios_log :: "(int \<times> string) list"

text \<open>The targets of the function pointers of \<open>struct machine_ops\<close>.\<close>

datatype lcd_driver = X1600_BACKLIGHT | GMA950_BACKLIGHT
datatype evdev_driver = EVDEV_IS_GEYSER3 | EVDEV_IS_GEYSER4

record machine_ops =
  ops_type :: machine_type
  lcd_backlight_probe :: lcd_driver
  lcd_backlight_step :: lcd_driver
  evdev_identify :: evdev_driver

subsection \<open>Operations\<close>

definition apple_vendor :: string where
  "apple_vendor = ''Apple Computer, Inc.''"

text \<open>The \<open>strcmp\<close> chain on the system name (lines 171--182).\<close>

definition smbios_model :: "string \<Rightarrow> machine_type" where
  "smbios_model prop =
     (if prop = ''MacBookPro1,1'' \<or> prop = ''MacBookPro1,2'' then MACHINE_MACBOOKPRO_1
      else if prop = ''MacBookPro2,1'' \<or> prop = ''MacBookPro2,2'' then MACHINE_MACBOOKPRO_2
      else if prop = ''MacBook1,1'' then MACHINE_MACBOOK_1
      else if prop = ''MacBook2,1'' then MACHINE_MACBOOK_2
      else MACHINE_MAC_UNKNOWN)"

definition check_machine_smbios :: "smbios_env \<Rightarrow> smbios_result" where
  "check_machine_smbios env =
     (if euid env \<noteq> 0 then
        \<lparr>machine = MACHINE_ERROR, queries = [],
         smbios_log = [(LOG_ERR, ''root privileges needed for SMBIOS machine detection'')]\<rparr>
      else
        let ret = (if vendor_name env = apple_vendor then MACHINE_MAC_UNKNOWN else MACHINE_UNKNOWN) in
        if ret \<noteq> MACHINE_MAC_UNKNOWN then
          \<lparr>machine = ret, queries = [SMBIOS_VENDOR_NAME], smbios_log = []\<rparr>
        else
          let prop = system_name env; m = smbios_model prop;
              l1 = (if m = MACHINE_MAC_UNKNOWN then [(LOG_ERR, ''Unknown Apple machine: '' @ prop)] else []);
              l2 = (if m \<noteq> MACHINE_MAC_UNKNOWN
                    then [(LOG_INFO, ''SMBIOS machine check: running on a '' @ prop)] else [])
          in \<lparr>machine = m, queries = [SMBIOS_VENDOR_NAME, SMBIOS_SYSTEM_NAME], smbios_log = l1 @ l2\<rparr>)"

definition mbp1_ops :: machine_ops where
  "mbp1_ops = \<lparr>ops_type = MACHINE_MACBOOKPRO_1, lcd_backlight_probe = X1600_BACKLIGHT,
     lcd_backlight_step = X1600_BACKLIGHT, evdev_identify = EVDEV_IS_GEYSER3\<rparr>"

definition mbp2_ops :: machine_ops where
  "mbp2_ops = \<lparr>ops_type = MACHINE_MACBOOKPRO_2, lcd_backlight_probe = X1600_BACKLIGHT,
     lcd_backlight_step = X1600_BACKLIGHT, evdev_identify = EVDEV_IS_GEYSER4\<rparr>"

definition mb1_ops :: machine_ops where
  "mb1_ops = \<lparr>ops_type = MACHINE_MACBOOK_1, lcd_backlight_probe = GMA950_BACKLIGHT,
     lcd_backlight_step = GMA950_BACKLIGHT, evdev_identify = EVDEV_IS_GEYSER3\<rparr>"

definition mb2_ops :: machine_ops where
  "mb2_ops = \<lparr>ops_type = MACHINE_MACBOOK_2, lcd_backlight_probe = GMA950_BACKLIGHT,
     lcd_backlight_step = GMA950_BACKLIGHT, evdev_identify = EVDEV_IS_GEYSER4\<rparr>"

text \<open>The \<open>switch (machine)\<close> of \<open>main\<close>: one table per known model, \<open>exit(1)\<close>
  (here \<open>None\<close>) for an unknown Apple model, a foreign vendor and the error value.\<close>

fun select_mops :: "machine_type \<Rightarrow> machine_ops option" where
  "select_mops MACHINE_MACBOOKPRO_1 = Some mbp1_ops"
| "select_mops MACHINE_MACBOOKPRO_2 = Some mbp2_ops"
| "select_mops MACHINE_MACBOOK_1 = Some mb1_ops"
| "select_mops MACHINE_MACBOOK_2 = Some mb2_ops"
| "select_mops MACHINE_MAC_UNKNOWN = None"
| "select_mops MACHINE_UNKNOWN = None"
| "select_mops MACHINE_ERROR = None"

text \<open>What the error cases of the same \<open>switch\<close> log before \<open>exit(1)\<close>; the
  \<open>default\<close> case (\<open>MACHINE_ERROR\<close>) logs nothing.\<close>

fun select_mops_log :: "machine_type \<Rightarrow> (int \<times> string) list" where
  "select_mops_log MACHINE_MAC_UNKNOWN = [(LOG_ERR, ''Unknown Apple machine'')]"
| "select_mops_log MACHINE_UNKNOWN = [(LOG_ERR, ''Unknown non-Apple machine'')]"
| "select_mops_log _ = []"

text \<open>The models the capability table knows.\<close>

definition known_machine :: "machine_type \<Rightarrow> bool" where
  "known_machine m \<longleftrightarrow>
     m \<in> {MACHINE_MACBOOKPRO_1, MACHINE_MACBOOKPRO_2, MACHINE_MACBOOK_1, MACHINE_MACBOOK_2}"

definition known_system_names :: "string list" where
  "known_system_names =
     [''MacBookPro1,1'', ''MacBookPro1,2'', ''MacBookPro2,1'', ''MacBookPro2,2'',
      ''MacBook1,1'', ''MacBook2,1'']"

lemmas machine_defs [c_model_defs] =
  apple_vendor_def smbios_model_def check_machine_smbios_def mbp1_ops_def mbp2_ops_def
  mb1_ops_def mb2_ops_def known_machine_def known_system_names_def

subsection \<open>Identification\<close>

lemma smbios_model_known:
  "known_machine (smbios_model prop) \<longleftrightarrow> prop \<in> set known_system_names"
  by (auto simp add: smbios_model_def known_machine_def known_system_names_def)

lemma smbios_model_not_error:
  "smbios_model prop \<noteq> MACHINE_ERROR \<and> smbios_model prop \<noteq> MACHINE_UNKNOWN"
  by (simp add: smbios_model_def)

text \<open>
  C15. A missing privilege and a failed recognition are told apart: the result is
  \<open>MACHINE_ERROR\<close> exactly when the effective user is not root, and then no firmware
  query is made and the one message logged says that root privileges are needed.
\<close>

theorem smbios_privilege_error:
  "(machine (check_machine_smbios env) = MACHINE_ERROR \<longleftrightarrow> euid env \<noteq> 0) \<and>
   (euid env \<noteq> 0 \<longrightarrow> queries (check_machine_smbios env) = [] \<and>
      smbios_log (check_machine_smbios env) =
        [(LOG_ERR, ''root privileges needed for SMBIOS machine detection'')])"
  using smbios_model_not_error [of "system_name env"]
  by (auto simp add: check_machine_smbios_def Let_def)

lemma smbios_privilege_error_example:
  "let env = \<lparr>euid = 1000, vendor_name = apple_vendor, system_name = ''MacBook2,1''\<rparr> in
   machine (check_machine_smbios env) = MACHINE_ERROR \<and> queries (check_machine_smbios env) = []"
  using smbios_privilege_error [of "\<lparr>euid = 1000, vendor_name = apple_vendor, system_name = ''MacBook2,1''\<rparr>"]
  by simp

text \<open>
  C16. Running as root on a machine whose SMBIOS vendor is not
  \<open>"Apple Computer, Inc."\<close>, identification returns \<open>MACHINE_UNKNOWN\<close> after the vendor
  query alone: the system name is never queried, and nothing is logged.
\<close>

theorem smbios_foreign_vendor:
  assumes "euid env = 0" "vendor_name env \<noteq> apple_vendor"
  shows "check_machine_smbios env =
           \<lparr>machine = MACHINE_UNKNOWN, queries = [SMBIOS_VENDOR_NAME], smbios_log = []\<rparr>"
  using assms by (simp add: check_machine_smbios_def)

lemma smbios_foreign_vendor_example:
  "check_machine_smbios \<lparr>euid = 0, vendor_name = ''Dell Inc.'', system_name = ''MacBook2,1''\<rparr>
     = \<lparr>machine = MACHINE_UNKNOWN, queries = [SMBIOS_VENDOR_NAME], smbios_log = []\<rparr>"
  by (rule smbios_foreign_vendor) (simp_all add: apple_vendor_def)

text \<open>
  C17. Identification followed by the table lookup of \<open>main\<close> selects a driver
  bundle exactly when the process runs as root, the vendor is Apple's and the system
  name is one of the six known model strings; the bundle selected is the one whose
  \<open>type\<close> is the identified machine.
\<close>

theorem identify_select_mops:
  "(\<exists>ops. select_mops (machine (check_machine_smbios env)) = Some ops \<and>
          ops_type ops = machine (check_machine_smbios env)) \<longleftrightarrow>
   euid env = 0 \<and> vendor_name env = apple_vendor \<and> system_name env \<in> set known_system_names"
proof -
  have sel: "(\<exists>ops. select_mops m = Some ops \<and> ops_type ops = m) \<longleftrightarrow> known_machine m" for m
    by (cases m) (simp_all add: known_machine_def mbp1_ops_def mbp2_ops_def mb1_ops_def mb2_ops_def)
  show ?thesis
    by (simp add: sel check_machine_smbios_def Let_def smbios_model_known [symmetric] known_machine_def)
qed

end
