(* ===== verification/EventLoop.thy ===== *)
theory EventLoop
  imports Prelude
begin

unbundle bit_operations_syntax

text \<open>
  The main loop of \<open>src/src/mbpeventd.c\<close> (lines 368--448): the event-source
  multiplexer and the ambient-light timer. Its local variables \<open>running\<close>,
  \<open>reopen\<close>, \<open>fds\<close>/\<open>nfds\<close> and \<open>tv_als\<close> are the record \<open>loop_state\<close>; the
  calls into collaborators (\<open>evdev_process_events\<close>,
  \<open>kbd_backlight_ambient_check\<close>) are recorded in the state as the lists of their
  arguments. Everything the loop receives from outside in one iteration (what
  \<open>evdev_reopen\<close> opens, what \<open>poll\<close> returns and writes into \<open>revents\<close>, the
  \<open>gettimeofday\<close> reading, whether the ambient check is enabled, whether a
  SIGINT/SIGTERM arrives) is the record \<open>iter_env\<close>. One iteration is
  \<open>loop_body\<close>; the loop is \<open>main_loop\<close> over a finite list of iterations, with
  \<open>None\<close> for "still running when the list ends"; \<open>loop_step\<close> is the step
  relation of the iterations that continue.
\<close>

subsection \<open>Data\<close>

text \<open>The \<open>poll.h\<close> flags (Linux values) and \<open>LOOP_TIMEOUT\<close> of \<open>mbpeventd.h\<close>
  (milliseconds; the header is not in the sources).\<close>

definition POLLIN :: c_short where "POLLIN = 1"
definition POLLERR :: c_short where "POLLERR = 8"
definition POLLHUP :: c_short where "POLLHUP = 16"
definition POLLNVAL :: c_short where "POLLNVAL = 32"
definition LOOP_TIMEOUT :: int where "LOOP_TIMEOUT = 200"

datatype poll_errno = EINTR | ERRNO_OTHER

record pollfd =
  fd :: int
  revents :: c_short

record timeval =
  tv_sec :: int
  tv_usec :: int

text \<open>What \<open>poll()\<close> does: fail with an \<open>errno\<close>, or return after writing one
  \<open>revents\<close> word per descriptor (the return value is the number of non-zero ones).\<close>

datatype poll_result = Poll_error poll_errno | Poll_ready "c_short list"

record iter_env =
  ev_reopen :: "int list"
  ev_poll :: poll_result
  ev_now :: timeval
  ev_als_on :: bool
  ev_signal :: bool

record loop_state =
  running :: bool
  reopen :: bool
  fds :: "pollfd list"
  tv_als :: timeval
  processed :: "int list"
  als_checks :: "timeval list"

datatype loop_exit = Exit_signal | Exit_reopen_failed | Exit_poll_error

datatype iter_result = Continue loop_state | Break loop_exit loop_state

subsection \<open>One iteration\<close>

definition poll_error_bits :: "c_short \<Rightarrow> bool" where
  "poll_error_bits r \<longleftrightarrow> r AND POLLERR \<noteq> 0 \<or> r AND POLLHUP \<noteq> 0 \<or> r AND POLLNVAL \<noteq> 0"

text \<open>The \<open>for\<close> loop over the descriptors (lines 400--414): stop at the first one
  with an error condition and ask for a reopen; before that, hand every readable
  descriptor to \<open>evdev_process_events\<close>, in order.\<close>

fun scan_fds :: "pollfd list \<Rightarrow> bool \<times> int list" where
  "scan_fds [] = (False, [])"
| "scan_fds (p # ps) =
     (if poll_error_bits (revents p) then (True, [])
      else
        let (r, evs) = scan_fds ps
        in (r, (if revents p AND POLLIN \<noteq> 0 then [fd p] else []) @ evs))"

definition poll_fill :: "pollfd list \<Rightarrow> c_short list \<Rightarrow> pollfd list" where
  "poll_fill ps rs = map2 (\<lambda>p r. p\<lparr>revents := r\<rparr>) ps (rs @ replicate (length ps) 0)"

definition poll_ret :: "pollfd list \<Rightarrow> nat" where
  "poll_ret ps = length (filter (\<lambda>p. revents p \<noteq> 0) ps)"

definition evdev_pollfds :: "int list \<Rightarrow> pollfd list" where
  "evdev_pollfds fs = map (\<lambda>f. \<lparr>fd = f, revents = 0\<rparr>) fs"

text \<open>The hand-written \<open>timeval\<close> difference of lines 419--433, in microseconds.\<close>

definition tv_diff_usec :: "timeval \<Rightarrow> timeval \<Rightarrow> int" where
  "tv_diff_usec now als =
     (let d = tv_sec now - tv_sec als; d = (if d < 0 then 0 else d) in
      if d = 0 then tv_usec now - tv_usec als
      else (1000000 - tv_usec als + tv_usec now) + (d - 1) * 1000000)"

definition ambient_check :: "timeval \<Rightarrow> loop_state \<Rightarrow> loop_state" where
  "ambient_check now s = s\<lparr>als_checks := als_checks s @ [now], tv_als := now\<rparr>"

text \<open>\<open>sig_int_term_handler\<close> (lines 208--212), run when the signal arrives.\<close>

definition sig_int_term_handler :: "loop_state \<Rightarrow> loop_state" where
  "sig_int_term_handler s = s\<lparr>running := False\<rparr>"

definition deliver_signal :: "iter_env \<Rightarrow> loop_state \<Rightarrow> loop_state" where
  "deliver_signal e s = (if ev_signal e then sig_int_term_handler s else s)"

definition poll_step :: "iter_env \<Rightarrow> loop_state \<Rightarrow> iter_result" where
  "poll_step e s =
     (case ev_poll e of
        Poll_error err \<Rightarrow>
          if err \<noteq> EINTR then Break Exit_poll_error s else Continue (deliver_signal e s)
      | Poll_ready rs \<Rightarrow>
          let ps = poll_fill (fds s) rs; s1 = s\<lparr>fds := ps\<rparr> in
          if poll_ret ps \<noteq> 0 then
            (let (r, evs) = scan_fds ps;
                 s2 = s1\<lparr>processed := processed s1 @ evs, reopen := (reopen s1 \<or> r)\<rparr>;
                 s3 = (if ev_als_on e \<and> tv_diff_usec (ev_now e) (tv_als s2) \<ge> 1000 * LOOP_TIMEOUT
                       then ambient_check (ev_now e) s2 else s2)
             in Continue (deliver_signal e s3))
          else if ev_als_on e then Continue (deliver_signal e (ambient_check (ev_now e) s1))
          else Continue (deliver_signal e s1))"

definition loop_body :: "iter_env \<Rightarrow> loop_state \<Rightarrow> iter_result" where
  "loop_body e s =
     (if reopen s then
        (if int (length (ev_reopen e)) < 1 then Break Exit_reopen_failed (s\<lparr>fds := []\<rparr>)
         else poll_step e (s\<lparr>fds := evdev_pollfds (ev_reopen e), reopen := False\<rparr>))
      else poll_step e s)"

subsection \<open>The loop\<close>

fun main_loop :: "iter_env list \<Rightarrow> loop_state \<Rightarrow> (loop_exit \<times> loop_state) option" where
  "main_loop [] s = (if running s then None else Some (Exit_signal, s))"
| "main_loop (e # es) s =
     (if \<not> running s then Some (Exit_signal, s)
      else case loop_body e s of
             Break x s' \<Rightarrow> Some (x, s')
           | Continue s' \<Rightarrow> main_loop es s')"

inductive loop_step :: "loop_state \<Rightarrow> loop_state \<Rightarrow> bool" where
  iteration: "running s \<Longrightarrow> loop_body e s = Continue s' \<Longrightarrow> loop_step s s'"

definition iter_state :: "iter_result \<Rightarrow> loop_state" where
  "iter_state r = (case r of Continue s \<Rightarrow> s | Break _ s \<Rightarrow> s)"

definition iter_exit :: "iter_result \<Rightarrow> loop_exit option" where
  "iter_exit r = (case r of Continue _ \<Rightarrow> None | Break x _ \<Rightarrow> Some x)"

definition tv_wf :: "timeval \<Rightarrow> bool" where
  "tv_wf t \<longleftrightarrow> 0 \<le> tv_usec t \<and> tv_usec t < 1000000"

definition tv_usecs :: "timeval \<Rightarrow> int" where
  "tv_usecs t = tv_sec t * 1000000 + tv_usec t"

text \<open>The state the loop starts from (lines 362--368) and an iteration with no
  reopen, no signal and the ambient check enabled, used by the examples.\<close>

definition loop_start :: "int list \<Rightarrow> timeval \<Rightarrow> loop_state" where
  "loop_start fs t = \<lparr>running = True, reopen = False, fds = evdev_pollfds fs, tv_als = t,
     processed = [], als_checks = []\<rparr>"

definition poll_env :: "c_short list \<Rightarrow> timeval \<Rightarrow> iter_env" where
  "poll_env rs t = \<lparr>ev_reopen = [], ev_poll = Poll_ready rs, ev_now = t, ev_als_on = True,
     ev_signal = False\<rparr>"

lemmas loop_defs [c_model_defs] =
  POLLIN_def POLLERR_def POLLHUP_def POLLNVAL_def LOOP_TIMEOUT_def poll_error_bits_def
  poll_fill_def poll_ret_def evdev_pollfds_def tv_diff_usec_def ambient_check_def
  sig_int_term_handler_def deliver_signal_def poll_step_def loop_body_def
  iter_state_def iter_exit_def tv_wf_def tv_usecs_def

inductive_cases loop_stepE: "loop_step s s'"

subsection \<open>Properties of the loop\<close>

lemma map_fd_update_revents:
  "length xs \<le> length ys \<Longrightarrow> map fd (map2 (\<lambda>p r. p\<lparr>revents := r\<rparr>) xs ys) = map fd xs"
proof (induction xs arbitrary: ys)
  case Nil
  then show ?case by simp
next
  case (Cons x xs)
  then show ?case by (cases ys) auto
qed

lemma poll_fill_fds [simp]: "map fd (poll_fill ps rs) = map fd ps"
  unfolding poll_fill_def by (rule map_fd_update_revents) simp

lemma poll_fill_length [simp]: "length (poll_fill ps rs) = length ps"
  using poll_fill_fds [of ps rs] by (metis length_map)

lemma poll_step_fds: "map fd (fds (iter_state (poll_step e s))) = map fd (fds s)"
  by (auto simp add: poll_step_def iter_state_def Let_def deliver_signal_def
      sig_int_term_handler_def ambient_check_def split: poll_result.splits prod.splits)

lemma poll_step_exit: "iter_exit (poll_step e s) \<noteq> Some Exit_reopen_failed"
  by (auto simp add: poll_step_def iter_exit_def Let_def split: poll_result.splits prod.splits)

lemma poll_step_signal:
  "poll_step e s = Continue s' \<Longrightarrow> ev_signal e \<Longrightarrow> \<not> running s'"
  by (auto simp add: poll_step_def Let_def deliver_signal_def sig_int_term_handler_def
      ambient_check_def split: poll_result.splits prod.splits if_splits)

lemma evdev_pollfds_fds [simp]: "map fd (evdev_pollfds fs) = fs"
  by (simp add: evdev_pollfds_def comp_def)

lemma loop_body_fds:
  "map fd (fds (iter_state (loop_body e s))) =
     (if reopen s then ev_reopen e else map fd (fds s))"
  using poll_step_fds [of e] by (auto simp add: loop_body_def iter_state_def)

lemma loop_body_signal:
  "loop_body e s = Continue s' \<Longrightarrow> ev_signal e \<Longrightarrow> \<not> running s'"
  by (auto simp add: loop_body_def dest: poll_step_signal split: if_splits)

lemma loop_body_fds_nonempty:
  assumes "loop_body e s = Continue s'" "fds s \<noteq> []"
  shows "fds s' \<noteq> []"
proof -
  have "map fd (fds s') = (if reopen s then ev_reopen e else map fd (fds s))"
    using loop_body_fds [of e s] assms(1) by (simp add: iter_state_def)
  moreover have "reopen s \<Longrightarrow> ev_reopen e \<noteq> []"
    using assms(1) by (auto simp add: loop_body_def split: if_splits)
  ultimately show ?thesis
    using assms(2) by (auto split: if_splits)
qed

lemma loop_step_fds_nonempty: "loop_step s s' \<Longrightarrow> fds s \<noteq> [] \<Longrightarrow> fds s' \<noteq> []"
  by (auto elim!: loop_stepE dest: loop_body_fds_nonempty)

lemma poll_step_Break: "poll_step e s = Break x s' \<Longrightarrow> x = Exit_poll_error \<and> s' = s"
  by (auto simp add: poll_step_def Let_def case_prod_beta split: poll_result.splits if_splits)

lemma loop_body_Break_fds:
  assumes "loop_body e s = Break x s'" "fds s \<noteq> []"
  shows "x \<noteq> Exit_signal \<and> (fds s' = [] \<longleftrightarrow> x = Exit_reopen_failed)"
  using assms by (auto simp add: loop_body_def evdev_pollfds_def split: if_splits dest!: poll_step_Break)

lemma scan_fds_fst: "fst (scan_fds ps) \<longleftrightarrow> (\<exists>p\<in>set ps. poll_error_bits (revents p))"
  by (induction ps) (auto simp add: Let_def split: prod.splits)

lemma poll_error_bits_nonzero: "poll_error_bits r \<Longrightarrow> r \<noteq> 0"
  by (auto simp add: poll_error_bits_def)

lemma poll_fill_nth:
  "i < length ps \<Longrightarrow> i < length rs \<Longrightarrow> revents (poll_fill ps rs ! i) = rs ! i"
  by (simp add: poll_fill_def nth_append)

lemma tv_diff_usec_monotone:
  assumes "tv_wf now" "tv_wf als" "tv_usecs als \<le> tv_usecs now"
  shows "tv_diff_usec now als = tv_usecs now - tv_usecs als"
proof -
  have "tv_sec als \<le> tv_sec now"
  proof (rule ccontr)
    assume "\<not> tv_sec als \<le> tv_sec now"
    then have "tv_sec now * 1000000 + 1000000 \<le> tv_sec als * 1000000"
      by simp
    then show False
      using assms by (simp add: tv_wf_def tv_usecs_def)
  qed
  then show ?thesis
    by (simp add: tv_diff_usec_def tv_usecs_def Let_def algebra_simps)
qed

lemma poll_step_ready_events:
  assumes "ev_poll e = Poll_ready rs" "poll_ret (poll_fill (fds s) rs) \<noteq> 0"
  defines "ps \<equiv> poll_fill (fds s) rs"
  defines "s2 \<equiv> s\<lparr>fds := ps, processed := processed s @ snd (scan_fds ps),
                    reopen := (reopen s \<or> fst (scan_fds ps))\<rparr>"
  shows "poll_step e s = Continue (deliver_signal e
           (if ev_als_on e \<and> tv_diff_usec (ev_now e) (tv_als s) \<ge> 1000 * LOOP_TIMEOUT
            then ambient_check (ev_now e) s2 else s2))"
  using assms by (simp add: poll_step_def Let_def split: prod.splits)

lemma tv_diff_usec_backwards:
  "tv_sec now < tv_sec als \<Longrightarrow> tv_diff_usec now als = tv_usec now - tv_usec als"
  by (simp add: tv_diff_usec_def)

text \<open>The ambient check of an iteration with input events, as a function of the
  computed difference.\<close>

lemma event_iteration_als:
  assumes "\<not> reopen s" "ev_poll e = Poll_ready rs" "poll_ret (poll_fill (fds s) rs) \<noteq> 0" "ev_als_on e"
  shows "\<exists>s'. loop_body e s = Continue s' \<and>
           als_checks s' =
             (if 1000 * LOOP_TIMEOUT \<le> tv_diff_usec (ev_now e) (tv_als s)
              then als_checks s @ [ev_now e] else als_checks s)"
  using assms poll_step_ready_events [OF assms(2,3)]
  by (simp add: loop_body_def deliver_signal_def sig_int_term_handler_def ambient_check_def)

lemma poll_step_als:
  "poll_step e s = Continue s' \<Longrightarrow>
   (tv_als s' = tv_als s \<and> als_checks s' = als_checks s) \<or>
   (tv_als s' = ev_now e \<and> als_checks s' = als_checks s @ [ev_now e])"
  by (auto simp add: poll_step_def Let_def deliver_signal_def sig_int_term_handler_def
      ambient_check_def case_prod_beta split: poll_result.splits if_splits)

lemma loop_body_als:
  "loop_body e s = Continue s' \<Longrightarrow>
   (tv_als s' = tv_als s \<and> als_checks s' = als_checks s) \<or>
   (tv_als s' = ev_now e \<and> als_checks s' = als_checks s @ [ev_now e])"
  by (auto simp add: loop_body_def split: if_splits dest!: poll_step_als)

text \<open>Every run of \<open>main_loop\<close> is a path of \<open>loop_step\<close>, followed either by
  the check of \<open>running\<close> that fails or by an iteration that breaks out.\<close>

lemma main_loop_Some:
  "main_loop es s = Some (x, s') \<Longrightarrow>
   \<exists>s''. loop_step\<^sup>*\<^sup>* s s'' \<and>
     ((x = Exit_signal \<and> s' = s'' \<and> \<not> running s'') \<or>
      (running s'' \<and> (\<exists>e\<in>set es. loop_body e s'' = Break x s')))"
proof (induction es arbitrary: s)
  case Nil
  then show ?case by (auto split: if_splits)
next
  case (Cons e es)
  show ?case
  proof (cases "running s")
    case False
    with Cons.prems show ?thesis by auto
  next
    case run: True
    show ?thesis
    proof (cases "loop_body e s")
      case (Break y t)
      with run Cons.prems show ?thesis by auto
    next
      case (Continue t)
      with run Cons.prems have "main_loop es t = Some (x, s')"
        by simp
      from Cons.IH [OF this] obtain s'' where
        r: "loop_step\<^sup>*\<^sup>* t s''" and
        ex: "(x = Exit_signal \<and> s' = s'' \<and> \<not> running s'') \<or>
             (running s'' \<and> (\<exists>e\<in>set es. loop_body e s'' = Break x s'))"
        by blast
      have "loop_step s t"
        using run Continue by (rule loop_step.iteration)
      then have "loop_step\<^sup>*\<^sup>* s s''"
        using r by (rule converse_rtranclp_into_rtranclp)
      with ex show ?thesis by auto
    qed
  qed
qed

text \<open>
  C18. Invariant of the multiplexer: in every state reachable by iterations of the
  main loop from a start with at least one event source, the source set is not empty,
  so \<open>poll\<close> is never called on an empty set.
\<close>

theorem loop_reach_fds_nonempty:
  assumes "loop_step\<^sup>*\<^sup>* s0 s" "fds s0 \<noteq> []"
  shows "fds s \<noteq> []"
  using assms by (induction rule: rtranclp_induct) (simp, metis loop_step_fds_nonempty)

lemma loop_reach_fds_nonempty_example:
  "let s0 = loop_start [7] \<lparr>tv_sec = 0, tv_usec = 0\<rparr>;
       s1 = iter_state (loop_body (poll_env [POLLHUP] \<lparr>tv_sec = 1, tv_usec = 0\<rparr>) s0)
   in loop_step\<^sup>*\<^sup>* s0 s1 \<and> fds s1 \<noteq> []"
proof -
  let ?s0 = "loop_start [7] \<lparr>tv_sec = 0, tv_usec = 0\<rparr>"
  let ?e = "poll_env [POLLHUP] \<lparr>tv_sec = 1, tv_usec = 0\<rparr>"
  let ?s1 = "iter_state (loop_body ?e ?s0)"
  have "loop_body ?e ?s0 = Continue ?s1"
    by (simp add: loop_defs loop_start_def poll_env_def)
  then have "loop_step ?s0 ?s1"
    by (rule loop_step.iteration [rotated]) (simp add: loop_start_def)
  then have r: "loop_step\<^sup>*\<^sup>* ?s0 ?s1"
    by (rule r_into_rtranclp)
  have "fds ?s0 \<noteq> []"
    by (simp add: loop_start_def evdev_pollfds_def)
  with r show ?thesis
    using loop_reach_fds_nonempty [OF r] by simp
qed

text \<open>
  C19. Reopen semantics: in an iteration that starts with \<open>reopen\<close> set, the loop
  exits with \<open>Exit_reopen_failed\<close> exactly when \<open>evdev_reopen\<close> yields no source,
  and otherwise polls the reopened set.
\<close>

theorem reopen_next_iteration:
  assumes "reopen s"
  shows "(iter_exit (loop_body e s) = Some Exit_reopen_failed \<longleftrightarrow> ev_reopen e = []) \<and>
         map fd (fds (iter_state (loop_body e s))) = ev_reopen e"
  using assms poll_step_exit [of e] loop_body_fds [of e s]
  by (auto simp add: loop_body_def iter_exit_def)

lemma reopen_next_iteration_example:
  "let s = (loop_start [7] \<lparr>tv_sec = 0, tv_usec = 0\<rparr>)\<lparr>reopen := True\<rparr>;
       e = (poll_env [] \<lparr>tv_sec = 1, tv_usec = 0\<rparr>)\<lparr>ev_reopen := [9, 10]\<rparr>
   in iter_exit (loop_body e s) \<noteq> Some Exit_reopen_failed \<and>
      map fd (fds (iter_state (loop_body e s))) = [9, 10]"
  using reopen_next_iteration [of "(loop_start [7] \<lparr>tv_sec = 0, tv_usec = 0\<rparr>)\<lparr>reopen := True\<rparr>"
      "(poll_env [] \<lparr>tv_sec = 1, tv_usec = 0\<rparr>)\<lparr>ev_reopen := [9, 10]\<rparr>"]
  by (simp add: Let_def)

text \<open>
  C20. A poll that reports \<open>POLLERR\<close>, \<open>POLLHUP\<close> or \<open>POLLNVAL\<close> on any source makes
  the iteration continue with \<open>reopen\<close> set, so the next iteration reopens the whole set.
\<close>

theorem hangup_sets_reopen:
  assumes "\<not> reopen s" "ev_poll e = Poll_ready rs" "i < length (fds s)" "i < length rs"
    "poll_error_bits (rs ! i)"
  shows "\<exists>s'. loop_body e s = Continue s' \<and> reopen s'"
proof -
  let ?ps = "poll_fill (fds s) rs"
  have i: "?ps ! i \<in> set ?ps" "revents (?ps ! i) = rs ! i"
    using assms(3,4) by (simp_all add: poll_fill_nth)
  then have "poll_ret ?ps \<noteq> 0"
    using poll_error_bits_nonzero [OF assms(5)]
    by (auto simp add: poll_ret_def filter_empty_conv intro!: bexI [of _ "?ps ! i"])
  moreover have "fst (scan_fds ?ps)"
    using i assms(5) unfolding scan_fds_fst by (intro bexI [of _ "?ps ! i"]) simp_all
  ultimately show ?thesis
    using assms(1,2) poll_step_ready_events [of e rs s]
    by (simp add: loop_body_def deliver_signal_def sig_int_term_handler_def ambient_check_def)
qed

lemma hangup_sets_reopen_example:
  "\<exists>s'. loop_body (poll_env [POLLHUP] \<lparr>tv_sec = 1, tv_usec = 0\<rparr>) (loop_start [7] \<lparr>tv_sec = 0, tv_usec = 0\<rparr>)
     = Continue s' \<and> reopen s'"
  by (rule hangup_sets_reopen [where rs = "[POLLHUP]" and i = 0])
     (simp_all add: loop_start_def poll_env_def evdev_pollfds_def poll_error_bits_def
        POLLHUP_def POLLERR_def POLLNVAL_def)

text \<open>
  C21. The descriptor scan equals its specification: it requests a reopen iff some
  descriptor reports an error condition, and hands to \<open>evdev_process_events\<close>, in
  order, exactly the readable descriptors before the first erroring one.
\<close>

theorem scan_fds_spec:
  "scan_fds ps =
     (\<exists>p\<in>set ps. poll_error_bits (revents p),
      map fd (filter (\<lambda>p. revents p AND POLLIN \<noteq> 0)
                (takeWhile (\<lambda>p. \<not> poll_error_bits (revents p)) ps)))"
  by (induction ps) (auto simp add: Let_def split: prod.splits)

text \<open>
  C22. Cancellation: if SIGINT or SIGTERM arrives during iteration \<open>k\<close>, the loop
  has ended by the next check of \<open>running\<close>: its outcome is fixed by the first
  \<open>k + 1\<close> iterations and it does end.
\<close>

theorem main_loop_signal_exit:
  assumes "k < length es" "ev_signal (es ! k)"
  shows "main_loop es s = main_loop (take (Suc k) es) s \<and> main_loop es s \<noteq> None"
  using assms
proof (induction es arbitrary: s k)
  case Nil
  then show ?case by simp
next
  case (Cons e es)
  show ?case
  proof (cases "running s")
    case False
    then show ?thesis by simp
  next
    case run: True
    show ?thesis
    proof (cases "loop_body e s")
      case (Break x s')
      with run show ?thesis by simp
    next
      case (Continue s')
      show ?thesis
      proof (cases k)
        case 0
        then have stop: "\<not> running s'"
          using Cons.prems loop_body_signal [OF Continue] by simp
        then have "main_loop es s' = Some (Exit_signal, s')"
          by (cases es) simp_all
        with run Continue 0 stop show ?thesis by simp
      next
        case (Suc k')
        then have "main_loop es s' = main_loop (take (Suc k') es) s' \<and> main_loop es s' \<noteq> None"
          using Cons.prems by (intro Cons.IH) simp_all
        then have eq: "main_loop es s' = main_loop (take (Suc k') es) s'"
          and nn: "main_loop es s' \<noteq> None"
          by blast+
        from run Continue Suc have "main_loop (e # es) s = main_loop es s'"
          and "main_loop (take (Suc k) (e # es)) s = main_loop (take (Suc k') es) s'"
          by simp_all
        with eq nn show ?thesis by simp
      qed
    qed
  qed
qed

lemma main_loop_signal_exit_example:
  "main_loop [(poll_env [] \<lparr>tv_sec = 1, tv_usec = 0\<rparr>)\<lparr>ev_signal := True\<rparr>,
              poll_env [] \<lparr>tv_sec = 2, tv_usec = 0\<rparr>] (loop_start [7] \<lparr>tv_sec = 0, tv_usec = 0\<rparr>) \<noteq> None"
proof -
  let ?es = "[(poll_env [] \<lparr>tv_sec = 1, tv_usec = 0\<rparr>)\<lparr>ev_signal := True\<rparr>,
              poll_env [] \<lparr>tv_sec = 2, tv_usec = 0\<rparr>]"
  have "0 < length ?es" "ev_signal (?es ! 0)"
    by simp_all
  from main_loop_signal_exit [OF this, of "loop_start [7] \<lparr>tv_sec = 0, tv_usec = 0\<rparr>"]
  show ?thesis
    by blast
qed

text \<open>
  C23. Ambient-light debounce: in an iteration with input events and the ambient
  check enabled, with a clock that has not gone backwards, the check fires exactly when
  at least \<open>LOOP_TIMEOUT\<close> milliseconds have passed since the last one.
\<close>

theorem event_iteration_als_debounce:
  assumes "\<not> reopen s" "ev_poll e = Poll_ready rs" "poll_ret (poll_fill (fds s) rs) \<noteq> 0"
    "ev_als_on e" "tv_wf (ev_now e)" "tv_wf (tv_als s)" "tv_usecs (tv_als s) \<le> tv_usecs (ev_now e)"
  shows "\<exists>s'. loop_body e s = Continue s' \<and>
           als_checks s' =
             (if 1000 * LOOP_TIMEOUT \<le> tv_usecs (ev_now e) - tv_usecs (tv_als s)
              then als_checks s @ [ev_now e] else als_checks s)"
  using event_iteration_als [OF assms(1-4)] tv_diff_usec_monotone [OF assms(5-7)] by simp

lemma event_iteration_als_debounce_example:
  "(\<exists>s'. loop_body (poll_env [POLLIN] \<lparr>tv_sec = 0, tv_usec = 100000\<rparr>) (loop_start [7] \<lparr>tv_sec = 0, tv_usec = 0\<rparr>)
      = Continue s' \<and> als_checks s' = []) \<and>
   (\<exists>s'. loop_body (poll_env [POLLIN] \<lparr>tv_sec = 1, tv_usec = 0\<rparr>) (loop_start [7] \<lparr>tv_sec = 0, tv_usec = 0\<rparr>)
      = Continue s' \<and> als_checks s' = [\<lparr>tv_sec = 1, tv_usec = 0\<rparr>])"
  using event_iteration_als_debounce [of "loop_start [7] \<lparr>tv_sec = 0, tv_usec = 0\<rparr>"
        "poll_env [POLLIN] \<lparr>tv_sec = 0, tv_usec = 100000\<rparr>" "[POLLIN]"]
    event_iteration_als_debounce [of "loop_start [7] \<lparr>tv_sec = 0, tv_usec = 0\<rparr>"
        "poll_env [POLLIN] \<lparr>tv_sec = 1, tv_usec = 0\<rparr>" "[POLLIN]"]
  by (simp add: loop_start_def poll_env_def evdev_pollfds_def poll_fill_def poll_ret_def
      POLLIN_def tv_wf_def tv_usecs_def LOOP_TIMEOUT_def)

text \<open>
  C24. When \<open>poll\<close> times out with the ambient check enabled, the check runs, its
  timer is reset to the current time, and no input event is processed.
\<close>

theorem timeout_iteration_als_check:
  assumes "\<not> reopen s" "ev_poll e = Poll_ready rs" "poll_ret (poll_fill (fds s) rs) = 0" "ev_als_on e"
  shows "\<exists>s'. loop_body e s = Continue s' \<and> als_checks s' = als_checks s @ [ev_now e] \<and>
           tv_als s' = ev_now e \<and> processed s' = processed s"
  using assms
  by (simp add: loop_body_def poll_step_def Let_def deliver_signal_def sig_int_term_handler_def
      ambient_check_def)

lemma timeout_iteration_als_check_example:
  "\<exists>s'. loop_body (poll_env [] \<lparr>tv_sec = 5, tv_usec = 0\<rparr>) (loop_start [7] \<lparr>tv_sec = 4, tv_usec = 900000\<rparr>)
     = Continue s' \<and> als_checks s' = [\<lparr>tv_sec = 5, tv_usec = 0\<rparr>] \<and>
       tv_als s' = \<lparr>tv_sec = 5, tv_usec = 0\<rparr> \<and> processed s' = []"
  using timeout_iteration_als_check [of "loop_start [7] \<lparr>tv_sec = 4, tv_usec = 900000\<rparr>"
      "poll_env [] \<lparr>tv_sec = 5, tv_usec = 0\<rparr>" "[]"]
  by (simp add: loop_start_def poll_env_def evdev_pollfds_def poll_fill_def poll_ret_def)

text \<open>
  C28. Clock going backwards: when the wall clock has moved back by whole seconds
  since the last ambient check, the difference is clamped to the microsecond fields
  alone, so the check of an event iteration fires exactly when the current
  microsecond field is at least \<open>LOOP_TIMEOUT\<close> ms past the stored one, however far
  the clock went back.
\<close>

theorem event_iteration_clock_backwards:
  assumes "\<not> reopen s" "ev_poll e = Poll_ready rs" "poll_ret (poll_fill (fds s) rs) \<noteq> 0"
    "ev_als_on e" "tv_sec (ev_now e) < tv_sec (tv_als s)"
  shows "\<exists>s'. loop_body e s = Continue s' \<and>
           als_checks s' =
             (if 1000 * LOOP_TIMEOUT \<le> tv_usec (ev_now e) - tv_usec (tv_als s)
              then als_checks s @ [ev_now e] else als_checks s)"
  using event_iteration_als [OF assms(1-4)] tv_diff_usec_backwards [OF assms(5)] by simp

lemma event_iteration_clock_backwards_example:
  "\<exists>s'. loop_body (poll_env [POLLIN] \<lparr>tv_sec = 0, tv_usec = 500000\<rparr>)
          (loop_start [7] \<lparr>tv_sec = 3600, tv_usec = 0\<rparr>) = Continue s' \<and>
        als_checks s' = [\<lparr>tv_sec = 0, tv_usec = 500000\<rparr>]"
  using event_iteration_clock_backwards [of "loop_start [7] \<lparr>tv_sec = 3600, tv_usec = 0\<rparr>"
      "poll_env [POLLIN] \<lparr>tv_sec = 0, tv_usec = 500000\<rparr>" "[POLLIN]"]
  by (simp add: loop_start_def poll_env_def evdev_pollfds_def poll_fill_def poll_ret_def
      POLLIN_def LOOP_TIMEOUT_def)

text \<open>
  C29. Invariant of the ambient timer: in every state the loop reaches from its
  start at time \<open>t0\<close>, \<open>tv_als\<close> holds the time of the last ambient check, or
  \<open>t0\<close> (the \<open>gettimeofday(&tv_als)\<close> before the loop) if none ran yet.
\<close>

theorem loop_reach_als_timer:
  assumes "loop_step\<^sup>*\<^sup>* (loop_start fs t0) s"
  shows "tv_als s = last (t0 # als_checks s)"
  using assms
proof (induction rule: rtranclp_induct)
  case base
  then show ?case by (simp add: loop_start_def)
next
  case (step s s')
  then show ?case
    by (auto elim!: loop_stepE dest!: loop_body_als)
qed

lemma loop_reach_als_timer_example:
  "let s0 = loop_start [7] \<lparr>tv_sec = 0, tv_usec = 0\<rparr>;
       s1 = iter_state (loop_body (poll_env [POLLIN] \<lparr>tv_sec = 1, tv_usec = 0\<rparr>) s0)
   in loop_step\<^sup>*\<^sup>* s0 s1 \<and> tv_als s1 = \<lparr>tv_sec = 1, tv_usec = 0\<rparr> \<and>
      tv_als s1 = last (\<lparr>tv_sec = 0, tv_usec = 0\<rparr> # als_checks s1)"
proof -
  let ?s0 = "loop_start [7] \<lparr>tv_sec = 0, tv_usec = 0\<rparr>"
  let ?e = "poll_env [POLLIN] \<lparr>tv_sec = 1, tv_usec = 0\<rparr>"
  let ?s1 = "iter_state (loop_body ?e ?s0)"
  have "loop_body ?e ?s0 = Continue ?s1"
    by (simp add: loop_defs loop_start_def poll_env_def)
  then have "loop_step ?s0 ?s1"
    by (rule loop_step.iteration [rotated]) (simp add: loop_start_def)
  then have r: "loop_step\<^sup>*\<^sup>* ?s0 ?s1"
    by (rule r_into_rtranclp)
  have "tv_als ?s1 = \<lparr>tv_sec = 1, tv_usec = 0\<rparr>"
    by (simp add: loop_defs loop_start_def poll_env_def)
  with r show ?thesis
    using loop_reach_als_timer [OF r] by simp
qed

text \<open>
  C30. How the loop ends: started on at least one event source, the loop leaves an
  empty source set behind exactly when it ended because \<open>evdev_reopen\<close> found no
  source; after a signal or a \<open>poll\<close> error the sources are still open for
  \<open>evdev_close\<close>.
\<close>

theorem main_loop_exit_fds:
  assumes "main_loop es (loop_start fs t0) = Some (x, s')" "fs \<noteq> []"
  shows "fds s' = [] \<longleftrightarrow> x = Exit_reopen_failed"
proof -
  obtain s'' where r: "loop_step\<^sup>*\<^sup>* (loop_start fs t0) s''" and
    ex: "(x = Exit_signal \<and> s' = s'' \<and> \<not> running s'') \<or>
         (running s'' \<and> (\<exists>e\<in>set es. loop_body e s'' = Break x s'))"
    using main_loop_Some [OF assms(1)] by blast
  have "fds (loop_start fs t0) \<noteq> []"
    using assms(2) by (simp add: loop_start_def evdev_pollfds_def)
  with r have ne: "fds s'' \<noteq> []"
    by (induction rule: rtranclp_induct) (auto dest: loop_step_fds_nonempty)
  from ex show ?thesis
    using ne loop_body_Break_fds by blast
qed

lemma main_loop_exit_fds_example:
  "\<exists>s'. main_loop [poll_env [POLLHUP] \<lparr>tv_sec = 1, tv_usec = 0\<rparr>, poll_env [] \<lparr>tv_sec = 2, tv_usec = 0\<rparr>]
          (loop_start [7] \<lparr>tv_sec = 0, tv_usec = 0\<rparr>) = Some (Exit_reopen_failed, s') \<and> fds s' = []"
proof -
  let ?es = "[poll_env [POLLHUP] \<lparr>tv_sec = 1, tv_usec = 0\<rparr>, poll_env [] \<lparr>tv_sec = 2, tv_usec = 0\<rparr>]"
  let ?s0 = "loop_start [7] \<lparr>tv_sec = 0, tv_usec = 0\<rparr>"
  have "\<exists>s'. main_loop ?es ?s0 = Some (Exit_reopen_failed, s')"
    by (simp add: loop_defs loop_start_def poll_env_def)
  then obtain s' where r: "main_loop ?es ?s0 = Some (Exit_reopen_failed, s')"
    by blast
  have "[7] \<noteq> ([] :: int list)"
    by simp
  with r show ?thesis
    using main_loop_exit_fds [OF r] by blast
qed

end
