(* ===== verification/Daemon.thy ===== *)
theory Daemon
  imports Machine EventLoop
begin

text \<open>
  \<open>main\<close> of \<open>src/src/mbpeventd.c\<close> around the loop: option parsing (lines
  233--256), the startup sequence (lines 266--368) and the exit status (lines
  450--460). The startup is generic in the backlight driver: it takes the probe
  function the selected \<open>machine_ops\<close> entry points to, as a function of the
  driver tag and of a driver state of any type \<open>'h\<close>; \<open>Spec2Isabelle\<close> instantiates
  it with the sysfs driver. Calls to collaborators that only log, print or set up
  the process (\<open>openlog\<close>, \<open>kbd_backlight_status_init\<close>, \<open>audio_init\<close>, writing
  the pid) are left out; their failures that end the process are kept as the
  flags of \<open>startup_env\<close>. An exit is \<open>Inl\<close> of the value given to \<open>exit()\<close>.
\<close>

text \<open>What \<open>main\<close> does besides computing, in the order it does it: open the
  system log, log a message, print to standard output, open and close the event
  sources, initialise the keyboard backlight and audio, detach (\<open>daemon(0, 0)\<close>),
  write and unlink the pid file, free the configuration, close the system log.
  \<open>Log l m\<close> is \<open>logmsg(l, m)\<close>. A message whose format has a \<open>%s\<close> of
  \<open>strerror(errno)\<close> or of \<open>PIDFILE\<close> is the text before the conversion, because
  neither value is determined by the sources.\<close>

datatype effect =
    Openlog
  | Log int string
  | Stdout string
  | Evdev_open nat
  | Evdev_close
  | Kbd_status_init
  | Audio_init
  | Daemonize
  | Pidfile_write
  | Pidfile_unlink
  | Config_cleanup
  | Closelog

text \<open>The outcome of every collaborator \<open>main\<close> calls at startup.
  \<open>m_version\<close> is the \<open>M_VERSION\<close> macro of \<open>mbpeventd.h\<close>, which is not in the
  sources.\<close>

record startup_env =
  config_ok :: bool
  smbios :: smbios_env
  evdev_open_fds :: "int list"
  kbd_present :: bool
  audio_ok :: bool
  daemon_ok :: bool
  pidfile_ok :: bool
  start_time :: timeval
  m_version :: string

definition tab :: char where
  "tab = CHR 0x09"

definition version_line :: "string \<Rightarrow> string" where
  "version_line ver = ''mbpeventd v'' @ ver @ '' ($Rev$) MacBook Pro & MacBook hotkeys handler''"

definition copyright_line :: string where
  "copyright_line = ''Copyright (C) 2006 Julien BLACHE <jb@jblache.org>''"

text \<open>\<open>usage()\<close> (lines 195--205).\<close>

definition usage :: "string \<Rightarrow> effect list" where
  "usage ver =
     [Stdout (version_line ver @ [nl]), Stdout (copyright_line @ [nl]), Stdout (''Usage:'' @ [nl]),
      Stdout ([tab] @ ''mpbeventd'' @ [tab] @ ''-- start mbpeventd as a daemon'' @ [nl]),
      Stdout ([tab] @ ''mbpeventd -v'' @ [tab] @ ''-- print version and exit'' @ [nl]),
      Stdout ([tab] @ ''mbpeventd -f'' @ [tab] @ ''-- run in the foreground with debug messages'' @ [nl])]"

text \<open>The \<open>getopt\<close> loop over the option characters (lines 233--256): \<open>-f\<close> sets
  \<open>debug\<close>, \<open>-v\<close> prints the version and exits 0, and anything else prints the
  usage and exits -1.\<close>

fun mbpeventd_getopt :: "string \<Rightarrow> char list \<Rightarrow> bool \<Rightarrow> (int + bool) \<times> effect list" where
  "mbpeventd_getopt ver [] dbg = (Inr dbg, [])"
| "mbpeventd_getopt ver (c # cs) dbg =
     (if c = CHR ''f'' then mbpeventd_getopt ver cs True
      else if c = CHR ''v'' then (Inl 0, [Stdout (version_line ver @ [nl]), Stdout (copyright_line @ [nl])])
      else (Inl (-1), usage ver))"

definition log_effects :: "(int \<times> string) list \<Rightarrow> effect list" where
  "log_effects ms = map (\<lambda>(l, m). Log l m) ms"

text \<open>The startup sequence of \<open>main\<close> (lines 258--368), with the messages and calls
  of each step. It ends in \<open>exit(c)\<close> (\<open>Inl c\<close>) or enters the loop (\<open>Inr\<close>) with
  the selected bundle, the driver state after its probe and the loop's start state.\<close>

definition mbpeventd_startup ::
  "(lcd_driver \<Rightarrow> 'h \<Rightarrow> int \<times> 'h) \<Rightarrow> bool \<Rightarrow> startup_env \<Rightarrow> 'h \<Rightarrow>
     (int + (machine_ops \<times> 'h \<times> loop_state)) \<times> effect list" where
  "mbpeventd_startup probe dbg env h =
     (let e0 = (if \<not> dbg then [Openlog] else []) @
               [Log LOG_INFO (version_line (m_version env)), Log LOG_INFO copyright_line] in
      if \<not> config_ok env then (Inl (-1), e0)
      else
        let r = check_machine_smbios (smbios env);
            e1 = e0 @ log_effects (smbios_log r) in
        case select_mops (machine r) of
          None \<Rightarrow> (Inl 1, e1 @ log_effects (select_mops_log (machine r)))
        | Some ops \<Rightarrow>
            (case probe (lcd_backlight_probe ops) h of
               (ret, h1) \<Rightarrow>
                 if ret < 0 then (Inl 1, e1 @ [Log LOG_ERR ''No LCD backlight found''])
                 else
                   let fs = evdev_open_fds env; e2 = e1 @ [Evdev_open (length fs)] in
                   if int (length fs) < 1 then (Inl 1, e2 @ [Log LOG_ERR ''No suitable event devices found''])
                   else
                     let e3 = e2 @ (if kbd_present env then [Kbd_status_init] else []) @ [Audio_init] @
                              (if \<not> audio_ok env
                               then [Log LOG_WARNING ''Audio initialization failed, audio support disabled'']
                               else []) in
                     if \<not> dbg \<and> \<not> daemon_ok env
                     then (Inl (-1), e3 @ [Daemonize, Log LOG_ERR ''daemon() failed: '', Evdev_close])
                     else
                       let e4 = e3 @ (if \<not> dbg then [Daemonize] else []) in
                       if \<not> pidfile_ok env
                       then (Inl (-1), e4 @ [Log LOG_WARNING ''Could not open pidfile '', Evdev_close])
                       else (Inr (ops, h1, loop_start fs (start_time env)), e4 @ [Pidfile_write])))"

text \<open>What the loop logs when it breaks out (lines 378 and 393).\<close>

fun loop_exit_log :: "loop_exit \<Rightarrow> effect list" where
  "loop_exit_log Exit_reopen_failed = [Log LOG_ERR ''No suitable event devices found (reopen)'']"
| "loop_exit_log Exit_poll_error = [Log LOG_ERR ''poll() error: '']"
| "loop_exit_log Exit_signal = []"

text \<open>The whole process: its exit status, or \<open>None\<close> while the loop still runs
  after the iterations given, with everything it did. After the loop, \<open>main\<close>
  closes the sources, unlinks the pid file, frees the configuration, logs
  \<open>"Exiting"\<close>, closes the system log unless in debug mode, and returns 0 whatever
  ended the loop (lines 450--460).\<close>

definition mbpeventd ::
  "(lcd_driver \<Rightarrow> 'h \<Rightarrow> int \<times> 'h) \<Rightarrow> char list \<Rightarrow> startup_env \<Rightarrow> 'h \<Rightarrow> iter_env list \<Rightarrow>
     int option \<times> effect list" where
  "mbpeventd probe opts env h es =
     (case mbpeventd_getopt (m_version env) opts False of
        (Inl code, out) \<Rightarrow> (Some code, out)
      | (Inr dbg, out) \<Rightarrow>
          (case mbpeventd_startup probe dbg env h of
             (Inl code, eff) \<Rightarrow> (Some code, out @ eff)
           | (Inr (ops, h1, s), eff) \<Rightarrow>
               (case main_loop es s of
                  None \<Rightarrow> (None, out @ eff)
                | Some (x, s') \<Rightarrow>
                    (Some 0, out @ eff @ loop_exit_log x @
                       [Evdev_close, Pidfile_unlink, Config_cleanup, Log LOG_INFO ''Exiting''] @
                       (if \<not> dbg then [Closelog] else [])))))"

text \<open>An environment in which every startup step succeeds on a MacBook2,1, used by
  the examples.\<close>

definition good_startup_env :: "int list \<Rightarrow> startup_env" where
  "good_startup_env fs = \<lparr>config_ok = True,
     smbios = \<lparr>euid = 0, vendor_name = apple_vendor, system_name = ''MacBook2,1''\<rparr>,
     evdev_open_fds = fs, kbd_present = True, audio_ok = True, daemon_ok = True, pidfile_ok = True,
     start_time = \<lparr>tv_sec = 0, tv_usec = 0\<rparr>, m_version = ''0.1''\<rparr>"

text \<open>What the parent process sees of \<open>exit(c)\<close>: the low eight bits of \<open>c\<close>
  (\<open>WEXITSTATUS\<close>), so that \<open>exit(-1)\<close> is seen as 255.\<close>

definition exit_status :: "int \<Rightarrow> 8 word" where
  "exit_status c = word_of_int c"

text \<open>The messages of an effect trace, and the predicate that every non-empty set
  of event sources opened is closed later in the trace.\<close>

definition logged :: "effect list \<Rightarrow> (int \<times> string) list" where
  "logged eff = concat (map (\<lambda>e. case e of Log l m \<Rightarrow> [(l, m)] | _ \<Rightarrow> []) eff)"

fun sources_released :: "effect list \<Rightarrow> bool" where
  "sources_released [] = True"
| "sources_released (Evdev_open n # es) = ((n = 0 \<or> Evdev_close \<in> set es) \<and> sources_released es)"
| "sources_released (e # es) = sources_released es"

lemmas daemon_defs [c_model_defs] = mbpeventd_startup_def mbpeventd_def

subsection \<open>Shape of the startup and of the effect traces\<close>

lemma mbpeventd_startup_Inr:
  "fst (mbpeventd_startup probe dbg env h) = Inr (ops, h1, s) \<longleftrightarrow>
     config_ok env \<and> select_mops (machine (check_machine_smbios (smbios env))) = Some ops \<and>
     snd (probe (lcd_backlight_probe ops) h) = h1 \<and> 0 \<le> fst (probe (lcd_backlight_probe ops) h) \<and>
     evdev_open_fds env \<noteq> [] \<and> (dbg \<or> daemon_ok env) \<and> pidfile_ok env \<and>
     s = loop_start (evdev_open_fds env) (start_time env)"
  by (auto simp add: mbpeventd_startup_def Let_def split: option.splits prod.splits if_splits)

lemma select_mops_type:
  "select_mops m = Some ops \<Longrightarrow> ops_type ops = m \<and> known_machine m"
  by (cases m) (auto simp add: known_machine_def mbp1_ops_def mbp2_ops_def mb1_ops_def mb2_ops_def)

lemma select_mops_None: "select_mops m = None \<longleftrightarrow> \<not> known_machine m"
  by (cases m) (simp_all add: known_machine_def)

lemma mbpeventd_getopt_Inl: "fst (mbpeventd_getopt ver cs d) = Inl c \<Longrightarrow> c = 0 \<or> c = -1"
  by (induction ver cs d rule: mbpeventd_getopt.induct) (auto split: if_splits)

lemma mbpeventd_getopt_stdout: "e \<in> set (snd (mbpeventd_getopt ver cs d)) \<Longrightarrow> \<exists>t. e = Stdout t"
  by (induction ver cs d rule: mbpeventd_getopt.induct) (auto simp add: usage_def split: if_splits)

lemma mbpeventd_startup_Inl:
  "fst (mbpeventd_startup probe dbg env h) = Inl c \<Longrightarrow> c = 1 \<or> c = -1"
  by (auto simp add: mbpeventd_startup_def Let_def split: option.splits prod.splits if_splits)

lemma logged_append [simp]: "logged (xs @ ys) = logged xs @ logged ys"
  by (simp add: logged_def)

lemma logged_simps [simp]:
  "logged [] = []" "logged (Log l m # es) = (l, m) # logged es"
  "logged (Openlog # es) = logged es" "logged (Stdout t # es) = logged es"
  "logged (Evdev_open n # es) = logged es" "logged (Evdev_close # es) = logged es"
  "logged (Kbd_status_init # es) = logged es" "logged (Audio_init # es) = logged es"
  "logged (Daemonize # es) = logged es" "logged (Pidfile_write # es) = logged es"
  "logged (Pidfile_unlink # es) = logged es" "logged (Config_cleanup # es) = logged es"
  "logged (Closelog # es) = logged es"
  by (simp_all add: logged_def)

lemma logged_log_effects [simp]: "logged (log_effects ms) = ms"
  by (induction ms) (auto simp add: log_effects_def)

lemma sources_released_close:
  "sources_released ys \<Longrightarrow> Evdev_close \<in> set ys \<Longrightarrow> sources_released (xs @ ys)"
  by (induction xs rule: sources_released.induct) auto

lemma sources_released_no_open:
  "(\<And>n. Evdev_open n \<in> set xs \<Longrightarrow> n = 0) \<Longrightarrow> sources_released ys \<Longrightarrow> sources_released (xs @ ys)"
  by (induction xs rule: sources_released.induct) auto

lemma log_effects_no_open [simp]: "Evdev_open n \<notin> set (log_effects ms)"
  by (auto simp add: log_effects_def)

lemma log_effects_no_pidfile [simp]: "Pidfile_write \<notin> set (log_effects ms)"
  by (auto simp add: log_effects_def)

lemma log_effects_released [simp]: "sources_released (log_effects ms)"
  by (induction ms) (auto simp add: log_effects_def)

lemma mbpeventd_startup_Inl_effects:
  assumes "fst (mbpeventd_startup probe dbg env h) = Inl c"
  shows "sources_released (snd (mbpeventd_startup probe dbg env h)) \<and>
         Pidfile_write \<notin> set (snd (mbpeventd_startup probe dbg env h))"
  using assms
  by (auto simp add: mbpeventd_startup_def Let_def usage_def
      intro!: sources_released_no_open split: option.splits prod.splits if_splits)






text \<open>The four ways a run of the process can go, with its effect trace in each.\<close>

lemma mbpeventd_trace:
  fixes probe :: "lcd_driver \<Rightarrow> 'h \<Rightarrow> int \<times> 'h"
  assumes "mbpeventd probe opts env h es = (r, eff)"
  obtains (options) k where "fst (mbpeventd_getopt (m_version env) opts False) = Inl k" "r = Some k"
      "eff = snd (mbpeventd_getopt (m_version env) opts False)"
  | (startup) dbg k where "fst (mbpeventd_getopt (m_version env) opts False) = Inr dbg"
      "fst (mbpeventd_startup probe dbg env h) = Inl k" "r = Some k"
      "eff = snd (mbpeventd_getopt (m_version env) opts False) @ snd (mbpeventd_startup probe dbg env h)"
  | (running) dbg ops h1 s where "fst (mbpeventd_getopt (m_version env) opts False) = Inr dbg"
      "fst (mbpeventd_startup probe dbg env h) = Inr (ops, h1, s)" "main_loop es s = None" "r = None"
      "eff = snd (mbpeventd_getopt (m_version env) opts False) @ snd (mbpeventd_startup probe dbg env h)"
  | (ended) dbg ops h1 s x s' where "fst (mbpeventd_getopt (m_version env) opts False) = Inr dbg"
      "fst (mbpeventd_startup probe dbg env h) = Inr (ops, h1, s)" "main_loop es s = Some (x, s')"
      "r = Some 0"
      "eff = snd (mbpeventd_getopt (m_version env) opts False) @ snd (mbpeventd_startup probe dbg env h) @
             loop_exit_log x @ [Evdev_close, Pidfile_unlink, Config_cleanup, Log LOG_INFO ''Exiting''] @
             (if \<not> dbg then [Closelog] else [])"
proof -
  obtain g out where go: "mbpeventd_getopt (m_version env) opts False = (g, out)"
    by (cases "mbpeventd_getopt (m_version env) opts False")
  show ?thesis
  proof (cases g)
    case (Inl k)
    with assms go show ?thesis
      by (intro options [of k]) (simp_all add: mbpeventd_def)
  next
    case (Inr dbg)
    obtain st eff0 where su: "mbpeventd_startup probe dbg env h = (st, eff0)"
      by (cases "mbpeventd_startup probe dbg env h")
    show ?thesis
    proof (cases st)
      case (Inl k)
      with assms go su \<open>g = Inr dbg\<close> show ?thesis
        by (intro startup [of dbg k]) (simp_all add: mbpeventd_def)
    next
      case (Inr t)
      obtain ops h1 s where t: "t = (ops, h1, s)"
        by (cases t)
      show ?thesis
      proof (cases "main_loop es s")
        case None
        with assms go su \<open>g = Inr dbg\<close> Inr t show ?thesis
          by (intro running [of dbg ops h1 s]) (simp_all add: mbpeventd_def)
      next
        case (Some y)
        obtain x s' where y: "y = (x, s')"
          by (cases y)
        with Some assms go su \<open>g = Inr dbg\<close> Inr t show ?thesis
          by (intro ended [of dbg ops h1 s x s']) (simp_all add: mbpeventd_def)
      qed
    qed
  qed
qed

subsection \<open>Properties of startup and exit\<close>

text \<open>
  C25. Startup order: the main loop is entered only when the configuration loaded,
  the machine was identified as a model of the capability table and the bundle
  selected is that model's, the probe of its backlight driver succeeded, and
  \<open>evdev_open\<close> found at least one event source; the loop then starts running, with
  no reopen pending, on exactly those sources.
\<close>

theorem mbpeventd_startup_loop:
  assumes "fst (mbpeventd_startup probe dbg env h) = Inr (ops, h1, s)"
  shows "config_ok env \<and> known_machine (ops_type ops) \<and>
         ops_type ops = machine (check_machine_smbios (smbios env)) \<and>
         probe (lcd_backlight_probe ops) h = (fst (probe (lcd_backlight_probe ops) h), h1) \<and>
         0 \<le> fst (probe (lcd_backlight_probe ops) h) \<and>
         running s \<and> \<not> reopen s \<and> map fd (fds s) = evdev_open_fds env \<and> fds s \<noteq> [] \<and>
         (dbg \<or> daemon_ok env) \<and> pidfile_ok env"
  using assms select_mops_type [of "machine (check_machine_smbios (smbios env))" ops]
  by (auto simp add: mbpeventd_startup_Inr loop_start_def evdev_pollfds_def comp_def)

lemma mbpeventd_startup_loop_example:
  "\<exists>ops h1 s. fst (mbpeventd_startup (\<lambda>_ h. (0, h)) False (good_startup_env [4, 5]) ()) = Inr (ops, h1, s) \<and>
     ops_type ops = MACHINE_MACBOOK_2 \<and> map fd (fds s) = [4, 5]"
proof -
  have r: "fst (mbpeventd_startup (\<lambda>_ h. (0, h)) False (good_startup_env [4, 5]) ())
           = Inr (mb2_ops, (), loop_start [4, 5] \<lparr>tv_sec = 0, tv_usec = 0\<rparr>)"
    by (simp add: mbpeventd_startup_def good_startup_env_def check_machine_smbios_def
        smbios_model_def Let_def)
  from mbpeventd_startup_loop [OF r] r show ?thesis
    by (auto simp add: mb2_ops_def good_startup_env_def)
qed

text \<open>
  C26. Every startup failure ends the process with a non-zero status, and an
  unrecognised or unidentifiable machine ends it with status 1. The error messages
  logged then tell the three causes apart: missing root privileges, a vendor that is
  not Apple, and an Apple model the table does not know (named in the message).
\<close>

theorem mbpeventd_startup_failure_status:
  assumes "mbpeventd_startup probe dbg env h = (Inl c, eff)"
  shows "c \<noteq> 0 \<and>
         (config_ok env \<and> \<not> known_machine (machine (check_machine_smbios (smbios env))) \<longrightarrow>
            c = 1 \<and>
            [m. (l, m) \<leftarrow> logged eff, l = LOG_ERR] =
              (if euid (smbios env) \<noteq> 0 then [''root privileges needed for SMBIOS machine detection'']
               else if vendor_name (smbios env) \<noteq> apple_vendor then [''Unknown non-Apple machine'']
               else [''Unknown Apple machine: '' @ system_name (smbios env), ''Unknown Apple machine'']))"
proof -
  have "c = 1 \<or> c = -1"
    using assms mbpeventd_startup_Inl [of probe dbg env h c] by simp
  moreover have "c = 1 \<and>
            [m. (l, m) \<leftarrow> logged eff, l = LOG_ERR] =
              (if euid (smbios env) \<noteq> 0 then [''root privileges needed for SMBIOS machine detection'']
               else if vendor_name (smbios env) \<noteq> apple_vendor then [''Unknown non-Apple machine'']
               else [''Unknown Apple machine: '' @ system_name (smbios env), ''Unknown Apple machine''])"
    if "config_ok env" "\<not> known_machine (machine (check_machine_smbios (smbios env)))"
  proof -
    have none: "select_mops (machine (check_machine_smbios (smbios env))) = None"
      using that(2) select_mops_None by blast
    have "smbios_model (system_name (smbios env)) \<in>
            {MACHINE_MACBOOKPRO_1, MACHINE_MACBOOKPRO_2, MACHINE_MACBOOK_1, MACHINE_MACBOOK_2,
             MACHINE_MAC_UNKNOWN}"
      by (simp add: smbios_model_def)
    then have "smbios_model (system_name (smbios env)) \<noteq> MACHINE_MAC_UNKNOWN \<Longrightarrow>
          known_machine (smbios_model (system_name (smbios env)))"
      by (auto simp add: known_machine_def)
    then show ?thesis
      using assms that none
      by (auto simp add: mbpeventd_startup_def check_machine_smbios_def Let_def
          LOG_ERR_def LOG_INFO_def split: if_splits)
  qed
  ultimately show ?thesis
    by auto
qed

lemma mbpeventd_startup_failure_status_example:
  "let env = (good_startup_env [4])\<lparr>smbios := \<lparr>euid = 0, vendor_name = ''Dell Inc.'', system_name = ''XPS''\<rparr>\<rparr> in
   fst (mbpeventd_startup (\<lambda>_ h. (0, h)) False env ()) = Inl 1 \<and>
   [m. (l, m) \<leftarrow> logged (snd (mbpeventd_startup (\<lambda>_ h. (0, h)) False env ())), l = LOG_ERR] =
     [''Unknown non-Apple machine'']"
proof -
  let ?env = "(good_startup_env [4])\<lparr>smbios := \<lparr>euid = 0, vendor_name = ''Dell Inc.'', system_name = ''XPS''\<rparr>\<rparr>"
  let ?r = "mbpeventd_startup (\<lambda>_ h. (0, h)) False ?env ()"
  have r1: "fst ?r = Inl 1"
    by (simp add: mbpeventd_startup_def good_startup_env_def check_machine_smbios_def apple_vendor_def Let_def)
  then have r: "?r = (Inl 1, snd ?r)"
    by (metis prod.collapse)
  have k: "config_ok ?env \<and> \<not> known_machine (machine (check_machine_smbios (smbios ?env)))"
    by (simp add: good_startup_env_def check_machine_smbios_def apple_vendor_def known_machine_def)
  from mbpeventd_startup_failure_status [OF r] k r1 show ?thesis
    by (simp add: good_startup_env_def apple_vendor_def)
qed

text \<open>
  C27. Once the loop is entered, the process exits with status 0 however the loop
  ended: a signal, a failed reopen and a \<open>poll\<close> error are not told apart.
\<close>

theorem mbpeventd_loop_exit_status:
  assumes "fst (mbpeventd_getopt (m_version env) opts False) = Inr dbg"
    "fst (mbpeventd_startup probe dbg env h) = Inr (ops, h1, s)" "main_loop es s = Some (x, s')"
  shows "fst (mbpeventd probe opts env h es) = Some 0"
  using assms by (auto simp add: mbpeventd_def split: prod.splits sum.splits)

lemma mbpeventd_loop_exit_status_example:
  "fst (mbpeventd (\<lambda>_ h. (0, h)) [] (good_startup_env [4]) ()
     [\<lparr>ev_reopen = [], ev_poll = Poll_error ERRNO_OTHER, ev_now = \<lparr>tv_sec = 1, tv_usec = 0\<rparr>,
       ev_als_on = False, ev_signal = False\<rparr>]) = Some 0"
proof (rule mbpeventd_loop_exit_status)
  show "fst (mbpeventd_getopt (m_version (good_startup_env [4])) [] False) = Inr False"
    by simp
  show "fst (mbpeventd_startup (\<lambda>_ h. (0, h)) False (good_startup_env [4]) ())
        = Inr (mb2_ops, (), loop_start [4] \<lparr>tv_sec = 0, tv_usec = 0\<rparr>)"
    by (simp add: mbpeventd_startup_def good_startup_env_def check_machine_smbios_def
        smbios_model_def Let_def)
  show "main_loop [\<lparr>ev_reopen = [], ev_poll = Poll_error ERRNO_OTHER, ev_now = \<lparr>tv_sec = 1, tv_usec = 0\<rparr>,
       ev_als_on = False, ev_signal = False\<rparr>] (loop_start [4] \<lparr>tv_sec = 0, tv_usec = 0\<rparr>)
        = Some (Exit_poll_error, loop_start [4] \<lparr>tv_sec = 0, tv_usec = 0\<rparr>)"
    by (simp add: loop_start_def loop_body_def poll_step_def)
qed

text \<open>
  C35. Exit statuses as the parent sees them: every run of the process that ends
  is seen to exit with 0, 1 or 255, and with 0 exactly when \<open>-v\<close> was given or the
  main loop was entered. So the parent can tell a startup failure from a
  successful start, but not a clean shutdown from a fatal error of the loop.
\<close>

theorem mbpeventd_exit_status_observed:
  assumes "fst (mbpeventd probe opts env h es) = Some c"
  shows "exit_status c \<in> {0, 1, 255} \<and>
         (exit_status c = 0 \<longleftrightarrow>
            fst (mbpeventd_getopt (m_version env) opts False) = Inl 0 \<or>
            (\<exists>dbg r. fst (mbpeventd_getopt (m_version env) opts False) = Inr dbg \<and>
                     fst (mbpeventd_startup probe dbg env h) = Inr r))"
proof -
  have "mbpeventd probe opts env h es = (Some c, snd (mbpeventd probe opts env h es))"
    using assms by (metis prod.collapse)
  then show ?thesis
  proof (cases rule: mbpeventd_trace)
    case (options k)
    then show ?thesis
      using mbpeventd_getopt_Inl [OF options(1)] by (auto simp add: exit_status_def)
  next
    case (startup dbg k)
    then show ?thesis
      using mbpeventd_startup_Inl [OF startup(2)] by (auto simp add: exit_status_def)
  next
    case (running dbg ops h1 s)
    then show ?thesis by simp
  next
    case (ended dbg ops h1 s x s')
    then show ?thesis
      by (auto simp add: exit_status_def)
  qed
qed

lemma mbpeventd_exit_status_observed_example:
  "fst (mbpeventd (\<lambda>_ h. (0, h)) ''q'' (good_startup_env [4]) () []) = Some (-1) \<and> exit_status (-1) = 255"
proof -
  have r: "fst (mbpeventd (\<lambda>_ h. (0, h)) ''q'' (good_startup_env [4]) () []) = Some (-1)"
    by (simp add: mbpeventd_def)
  from mbpeventd_exit_status_observed [OF r] r show ?thesis
    by (simp add: exit_status_def)
qed

text \<open>
  C37. Resources: every run of the process that ends closes again the event
  sources it opened, on the failure paths after \<open>evdev_open\<close> (\<open>daemon()\<close> and the
  pid file) as after the loop, and unlinks the pid file whenever it wrote one.
\<close>

theorem mbpeventd_releases_resources:
  assumes "mbpeventd probe opts env h es = (Some c, eff)"
  shows "sources_released eff \<and> (Pidfile_write \<in> set eff \<longrightarrow> Pidfile_unlink \<in> set eff)"
proof -
  let ?out = "snd (mbpeventd_getopt (m_version env) opts False)"
  have out: "\<And>e. e \<in> set ?out \<Longrightarrow> \<exists>t. e = Stdout t"
    by (rule mbpeventd_getopt_stdout)
  then have out_open: "\<And>n. Evdev_open n \<in> set ?out \<Longrightarrow> n = 0" and out_pid: "Pidfile_write \<notin> set ?out"
    by fastforce+
  from assms show ?thesis
  proof (cases rule: mbpeventd_trace)
    case options
    then show ?thesis
      using sources_released_no_open [OF out_open, where ys = "[]"] out_pid by simp
  next
    case (startup dbg k)
    then show ?thesis
      using mbpeventd_startup_Inl_effects [of probe dbg env h k] sources_released_no_open [OF out_open]
        out_pid by auto
  next
    case (running dbg ops h1 s)
    then show ?thesis by simp
  next
    case (ended dbg ops h1 s x s')
    let ?tail = "[Evdev_close, Pidfile_unlink, Config_cleanup, Log LOG_INFO ''Exiting''] @
                 (if \<not> dbg then [Closelog] else [])"
    have "sources_released ?tail" "Evdev_close \<in> set ?tail" "Pidfile_unlink \<in> set ?tail"
      by simp_all
    then show ?thesis
      using ended(5) sources_released_close [of ?tail "?out @ snd (mbpeventd_startup probe dbg env h) @
          loop_exit_log x"] by auto
  qed
qed

lemma mbpeventd_releases_resources_example:
  "let r = mbpeventd (\<lambda>_ h. (0, h)) [] (good_startup_env [4]) ()
             [\<lparr>ev_reopen = [], ev_poll = Poll_error ERRNO_OTHER, ev_now = \<lparr>tv_sec = 1, tv_usec = 0\<rparr>,
               ev_als_on = False, ev_signal = False\<rparr>]
   in fst r = Some 0 \<and> Evdev_open 1 \<in> set (snd r) \<and> Pidfile_write \<in> set (snd r) \<and>
      sources_released (snd r) \<and> Pidfile_unlink \<in> set (snd r)"
proof -
  let ?r = "mbpeventd (\<lambda>_ h. (0, h)) [] (good_startup_env [4]) ()
             [\<lparr>ev_reopen = [], ev_poll = Poll_error ERRNO_OTHER, ev_now = \<lparr>tv_sec = 1, tv_usec = 0\<rparr>,
               ev_als_on = False, ev_signal = False\<rparr>]"
  have f: "fst ?r = Some 0" "Evdev_open 1 \<in> set (snd ?r)" "Pidfile_write \<in> set (snd ?r)"
    by (simp_all add: mbpeventd_def mbpeventd_startup_def good_startup_env_def check_machine_smbios_def
        smbios_model_def Let_def loop_start_def loop_body_def poll_step_def)
  then have r: "?r = (Some 0, snd ?r)"
    by (metis prod.collapse)
  from mbpeventd_releases_resources [OF r] f show ?thesis
    by (simp add: Let_def)
qed





end
