(* ===== verification/Timeval32.thy ===== *)
theory Timeval32
  imports EventLoop
begin

text \<open>
  The \<open>timeval\<close> difference of the main loop (\<open>src/src/mbpeventd.c\<close>, lines
  418--435) at the width it has on the 32-bit machines the daemon was written for
  (the MacBook1,1 and MacBookPro1,x have 32-bit Core Duo processors). There
  \<open>time_t\<close> and \<open>suseconds_t\<close> are 32-bit \<open>long\<close>s, and every subtraction and
  product of the computation is done at that width. Signed overflow is undefined
  in C; it is modelled as the two's complement wrap the processor performs.
  \<open>tv_trunc32\<close> stores an exact time into the 32-bit fields. \<open>tv_diff_usec32_hom\<close>
  shows the computation agrees with \<open>tv_diff_usec\<close> modulo \<open>2^32\<close> whenever the
  difference in seconds fits in a \<open>long\<close>, even across the 2038 wrap of \<open>time_t\<close>.
  The results below bound the gap for which the ambient-check decision is the
  exact one, and show the wrap beyond that gap.
\<close>

type_synonym c_long32 = "32 word"

record timeval32 =
  tv_sec32 :: c_long32
  tv_usec32 :: c_long32

definition tv_diff_usec32 :: "timeval32 \<Rightarrow> timeval32 \<Rightarrow> c_long32" where
  "tv_diff_usec32 now als =
     (let d = tv_sec32 now - tv_sec32 als; d = (if d <s 0 then 0 else d) in
      if d = 0 then tv_usec32 now - tv_usec32 als
      else (1000000 - tv_usec32 als + tv_usec32 now) + (d - 1) * 1000000)"

text \<open>The test \<open>tv_diff.tv_usec >= (1000 * LOOP_TIMEOUT)\<close>, a signed comparison.\<close>

definition als_due32 :: "timeval32 \<Rightarrow> timeval32 \<Rightarrow> bool" where
  "als_due32 now als \<longleftrightarrow> 1000 * LOOP_TIMEOUT \<le> sint (tv_diff_usec32 now als)"

definition tv_trunc32 :: "timeval \<Rightarrow> timeval32" where
  "tv_trunc32 t = \<lparr>tv_sec32 = word_of_int (tv_sec t), tv_usec32 = word_of_int (tv_usec t)\<rparr>"

subsection \<open>Words and integers\<close>

lemma sint_word_of_int_id:
  "- (2 ^ 31) \<le> v \<Longrightarrow> v < 2 ^ 31 \<Longrightarrow> sint (word_of_int v :: 32 word) = v"
  by (simp add: sint_sbintrunc' signed_take_bit_int_eq_self)

lemma sint_word_of_int_wrap:
  assumes "2 ^ 31 \<le> x" "x < 2 ^ 32"
  shows "sint (word_of_int x :: 32 word) = x - 2 ^ 32"
proof -
  have "(x + 2 ^ 31) mod 2 ^ 32 = ((x - 2 ^ 31) + 2 ^ 32) mod 2 ^ 32"
    by (simp add: add.commute)
  also have "\<dots> = x - 2 ^ 31"
    unfolding mod_add_self2 using assms by (intro mod_pos_pos_trivial) simp_all
  finally show ?thesis
    by (simp add: int_word_sint)
qed

lemma tv_diff_usec_range:
  assumes "tv_wf now" "tv_wf als" "tv_sec now - tv_sec als \<le> 2146"
  shows "- (2 ^ 31) \<le> tv_diff_usec now als \<and> tv_diff_usec now als < 2 ^ 31"
proof -
  let ?D = "tv_sec now - tv_sec als"
  have "(?D - 1) * 1000000 \<le> 2145 * 1000000" if "1 \<le> ?D"
    using assms(3) by (intro mult_right_mono) simp_all
  moreover have "0 \<le> (?D - 1) * 1000000" if "1 \<le> ?D"
    using that by simp
  ultimately show ?thesis
    using assms(1,2) by (auto simp add: tv_diff_usec_def tv_wf_def Let_def)
qed

text \<open>The 32-bit computation is the exact one modulo \<open>2^32\<close> whenever the difference
  in seconds fits in a \<open>long\<close>, whatever the readings themselves.\<close>

lemma tv_diff_usec32_hom:
  assumes "- (2 ^ 31) \<le> tv_sec now - tv_sec als" "tv_sec now - tv_sec als < 2 ^ 31"
  shows "tv_diff_usec32 (tv_trunc32 now) (tv_trunc32 als) = word_of_int (tv_diff_usec now als)"
proof -
  let ?D = "tv_sec now - tv_sec als"
  have d: "tv_sec32 (tv_trunc32 now) - tv_sec32 (tv_trunc32 als) = (word_of_int ?D :: 32 word)"
    by (simp add: tv_trunc32_def)
  have s: "sint (word_of_int ?D :: 32 word) = ?D"
    using assms by (rule sint_word_of_int_id)
  have lt: "(word_of_int ?D :: 32 word) <s 0 \<longleftrightarrow> ?D < 0"
    using s by (simp add: word_sless_alt)
  have z: "(word_of_int ?D :: 32 word) = 0 \<longleftrightarrow> ?D = 0"
    using s by (metis sint_0 word_of_int_0)
  show ?thesis
    using lt z by (simp add: tv_diff_usec32_def tv_diff_usec_def d Let_def tv_trunc32_def
        wi_hom_syms)
qed

subsection \<open>Properties\<close>

text \<open>
  C31. Refinement of the 32-bit computation: for well-formed clock readings less
  than 2147 seconds apart, or with the clock gone back by less than \<open>2^31\<close>
  seconds, the 32-bit \<open>timeval\<close> difference read as a signed \<open>long\<close> is the exact
  difference \<open>tv_diff_usec\<close>, and the 32-bit test decides the ambient check as the
  exact one does. This holds of the readings as stored, also after \<open>time_t\<close>
  wrapped in 2038.
\<close>

theorem tv_diff_usec32_refines:
  assumes "tv_wf now" "tv_wf als" "- (2 ^ 31) \<le> tv_sec now - tv_sec als"
    "tv_sec now - tv_sec als \<le> 2146"
  shows "sint (tv_diff_usec32 (tv_trunc32 now) (tv_trunc32 als)) = tv_diff_usec now als \<and>
         (als_due32 (tv_trunc32 now) (tv_trunc32 als) \<longleftrightarrow> 1000 * LOOP_TIMEOUT \<le> tv_diff_usec now als)"
proof -
  have "tv_diff_usec32 (tv_trunc32 now) (tv_trunc32 als) = word_of_int (tv_diff_usec now als)"
    using assms(3,4) by (intro tv_diff_usec32_hom) simp_all
  moreover have "sint (word_of_int (tv_diff_usec now als) :: 32 word) = tv_diff_usec now als"
    using tv_diff_usec_range [OF assms(1,2,4)] by (intro sint_word_of_int_id) simp_all
  ultimately show ?thesis
    by (simp add: als_due32_def)
qed

lemma tv_diff_usec32_refines_example:
  "let now = \<lparr>tv_sec = 2 ^ 31 + 1, tv_usec = 100000\<rparr>; als = \<lparr>tv_sec = 2 ^ 31 - 1, tv_usec = 900000\<rparr> in
   sint (tv_diff_usec32 (tv_trunc32 now) (tv_trunc32 als)) = 1200000 \<and>
   als_due32 (tv_trunc32 now) (tv_trunc32 als)"
proof -
  let ?now = "\<lparr>tv_sec = 2 ^ 31 + 1, tv_usec = 100000\<rparr>" and ?als = "\<lparr>tv_sec = 2 ^ 31 - 1, tv_usec = 900000\<rparr>"
  have "sint (tv_diff_usec32 (tv_trunc32 ?now) (tv_trunc32 ?als)) = tv_diff_usec ?now ?als \<and>
        (als_due32 (tv_trunc32 ?now) (tv_trunc32 ?als) \<longleftrightarrow> 1000 * LOOP_TIMEOUT \<le> tv_diff_usec ?now ?als)"
    by (rule tv_diff_usec32_refines) (simp_all add: tv_wf_def)
  then show ?thesis
    by (simp add: tv_diff_usec_def LOOP_TIMEOUT_def)
qed

text \<open>
  C32. Overflow of the 32-bit debounce: after a gap of 2148 to 4294 seconds (for
  instance a suspend of 36 minutes or more, after which the event devices report a
  hangup), \<open>tv_diff.tv_sec * 1000000\<close> overflows, the computed difference is
  negative, and the ambient check of an event iteration is skipped although far more
  than \<open>LOOP_TIMEOUT\<close> has passed.
\<close>

theorem als_due32_wraps:
  assumes "tv_usec now = tv_usec als" "2148 \<le> tv_sec now - tv_sec als" "tv_sec now - tv_sec als \<le> 4294"
  shows "sint (tv_diff_usec32 (tv_trunc32 now) (tv_trunc32 als)) = (tv_sec now - tv_sec als) * 1000000 - 2 ^ 32 \<and>
         \<not> als_due32 (tv_trunc32 now) (tv_trunc32 als)"
proof -
  let ?D = "tv_sec now - tv_sec als"
  have v: "tv_diff_usec now als = ?D * 1000000"
    using assms by (simp add: tv_diff_usec_def Let_def algebra_simps)
  have w: "tv_diff_usec32 (tv_trunc32 now) (tv_trunc32 als) = word_of_int (?D * 1000000)"
    using assms(2,3) v by (subst v [symmetric], intro tv_diff_usec32_hom) simp_all
  have lo: "2 ^ 31 \<le> ?D * 1000000" and hi: "?D * 1000000 < 2 ^ 32"
    using assms(2,3) by simp_all
  have s: "sint (tv_diff_usec32 (tv_trunc32 now) (tv_trunc32 als)) = ?D * 1000000 - 2 ^ 32"
    unfolding w using lo hi by (rule sint_word_of_int_wrap)
  then show ?thesis
    using hi by (simp add: als_due32_def LOOP_TIMEOUT_def)
qed

lemma als_due32_wraps_example:
  "let als = \<lparr>tv_sec = 1000000000, tv_usec = 0\<rparr>; now = \<lparr>tv_sec = 1000002148, tv_usec = 0\<rparr> in
   tv_diff_usec now als = 2148000000 \<and> \<not> als_due32 (tv_trunc32 now) (tv_trunc32 als)"
  using als_due32_wraps [of "\<lparr>tv_sec = 1000002148, tv_usec = 0\<rparr>" "\<lparr>tv_sec = 1000000000, tv_usec = 0\<rparr>"]
  by (simp add: tv_diff_usec_def)

end
