(* ===== verification/MuxSpec.thy ===== *)
theory MuxSpec
  imports EventLoop
begin

text \<open>
  The abstract event-source multiplexer, and the proof that the main loop of
  \<open>src/src/mbpeventd.c\<close> implements it. The multiplexer has three states: \<open>Open n\<close>
  with \<open>n\<close> sources, \<open>Degraded\<close> after a source signalled an error or a hangup, and
  \<open>Closed\<close>. One iteration of the loop is an optional reopen followed by one
  wait. A reopen takes \<open>Degraded\<close> either to a wait on a fresh, non-empty set or to
  \<open>Closed\<close>. A wait on \<open>n\<close> sources keeps them, degrades them, or closes the loop.
  \<open>mux_abs\<close> reads the abstract state off \<open>loop_state\<close>, and \<open>mux_res\<close> reads it off
  the result of an iteration, where a \<open>Break\<close> is \<open>Closed\<close>. The section on wait
  errors states what a failed \<open>poll\<close> does.
\<close>

datatype mux_state = Open nat | Degraded nat | Closed

text \<open>The outcomes of one wait on \<open>n\<close> sources.\<close>

inductive mux_wait :: "nat \<Rightarrow> mux_state \<Rightarrow> bool" where
  ready: "mux_wait n (Open n)"
| degrade: "mux_wait n (Degraded n)"
| stop: "mux_wait n Closed"

text \<open>One iteration: a wait on the open set, or a reopen and then a wait on the
  new set.\<close>

inductive mux_iter :: "mux_state \<Rightarrow> mux_state \<Rightarrow> bool" where
  wait: "mux_wait n t \<Longrightarrow> mux_iter (Open n) t"
| reopened: "0 < m \<Longrightarrow> mux_wait m t \<Longrightarrow> mux_iter (Degraded n) t"
| exhausted: "mux_iter (Degraded n) Closed"

definition mux_abs :: "loop_state \<Rightarrow> mux_state" where
  "mux_abs s = (if \<not> running s then Closed
                else if reopen s then Degraded (length (fds s)) else Open (length (fds s)))"

definition mux_res :: "iter_result \<Rightarrow> mux_state" where
  "mux_res r = (case r of Continue s \<Rightarrow> mux_abs s | Break _ _ \<Rightarrow> Closed)"

subsection \<open>Simulation\<close>

lemma poll_step_length:
  "poll_step e s = Continue s' \<Longrightarrow> length (fds s') = length (fds s)"
  by (auto simp add: poll_step_def Let_def deliver_signal_def sig_int_term_handler_def
      ambient_check_def case_prod_beta split: poll_result.splits if_splits)

lemma poll_step_mux_wait: "mux_wait (length (fds s)) (mux_res (poll_step e s))"
proof (cases "poll_step e s")
  case (Continue s')
  then show ?thesis
    using poll_step_length [OF Continue]
    by (auto simp add: mux_abs_def mux_res_def intro: mux_wait.intros)
next
  case (Break x s')
  then show ?thesis
    by (simp add: mux_res_def mux_wait.stop)
qed

text \<open>
  C33. Refinement of the multiplexer: every iteration of the main loop that starts
  with \<open>running\<close> set is a transition of the abstract multiplexer. Without a pending
  reopen, the number of sources is unchanged unless the loop closes. With one, the
  loop closes when no source comes back, and otherwise waits on the non-empty new
  set.
\<close>

theorem loop_body_refines_mux:
  assumes "running s"
  shows "mux_iter (mux_abs s) (mux_res (loop_body e s))"
proof (cases "reopen s")
  case False
  then show ?thesis
    using poll_step_mux_wait [of s e] assms
    by (auto simp add: loop_body_def mux_abs_def intro: mux_iter.wait)
next
  case True
  let ?s1 = "s\<lparr>fds := evdev_pollfds (ev_reopen e), reopen := False\<rparr>"
  show ?thesis
  proof (cases "ev_reopen e = []")
    case True
    with \<open>reopen s\<close> assms show ?thesis
      by (simp add: loop_body_def mux_abs_def mux_res_def mux_iter.exhausted)
  next
    case False
    then have "0 < length (fds ?s1)"
      by (simp add: evdev_pollfds_def)
    moreover have "mux_wait (length (fds ?s1)) (mux_res (poll_step e ?s1))"
      by (rule poll_step_mux_wait)
    ultimately show ?thesis
      using \<open>reopen s\<close> assms False
      by (auto simp add: loop_body_def mux_abs_def intro: mux_iter.reopened)
  qed
qed

lemma loop_body_refines_mux_example:
  "let s = (loop_start [7] \<lparr>tv_sec = 0, tv_usec = 0\<rparr>)\<lparr>reopen := True\<rparr>;
       e = (poll_env [] \<lparr>tv_sec = 1, tv_usec = 0\<rparr>)\<lparr>ev_reopen := [9, 10]\<rparr>
   in mux_iter (mux_abs s) (mux_res (loop_body e s)) \<and>
      mux_abs s = Degraded 1 \<and> mux_res (loop_body e s) = Open 2"
proof -
  let ?s = "(loop_start [7] \<lparr>tv_sec = 0, tv_usec = 0\<rparr>)\<lparr>reopen := True\<rparr>"
  let ?e = "(poll_env [] \<lparr>tv_sec = 1, tv_usec = 0\<rparr>)\<lparr>ev_reopen := [9, 10]\<rparr>"
  have "running ?s"
    by (simp add: loop_start_def)
  then have "mux_iter (mux_abs ?s) (mux_res (loop_body ?e ?s))"
    by (rule loop_body_refines_mux)
  moreover have "mux_abs ?s = Degraded 1" "mux_res (loop_body ?e ?s) = Open 2"
    by (simp_all add: loop_defs loop_start_def poll_env_def mux_abs_def mux_res_def)
  ultimately show ?thesis
    by simp
qed

subsection \<open>Errors of the wait\<close>

text \<open>
  C34. Error handling of the wait: a \<open>poll\<close> interrupted by a signal
  (\<open>EINTR\<close>) is not fatal. The iteration continues with the state unchanged, except
  that a SIGINT/SIGTERM clears \<open>running\<close>. Any other \<open>poll\<close> error ends the loop
  with \<open>Exit_poll_error\<close>, and the state is left as it was.
\<close>

theorem poll_error_handling:
  assumes "\<not> reopen s" "ev_poll e = Poll_error err"
  shows "loop_body e s =
           (if err = EINTR then Continue (s\<lparr>running := running s \<and> \<not> ev_signal e\<rparr>)
            else Break Exit_poll_error s)"
  using assms
  by (simp add: loop_body_def poll_step_def deliver_signal_def sig_int_term_handler_def)

lemma poll_error_handling_example:
  "let s = loop_start [7] \<lparr>tv_sec = 0, tv_usec = 0\<rparr> in
   loop_body (\<lparr>ev_reopen = [], ev_poll = Poll_error EINTR, ev_now = \<lparr>tv_sec = 1, tv_usec = 0\<rparr>,
                ev_als_on = True, ev_signal = False\<rparr>) s = Continue s \<and>
   loop_body (\<lparr>ev_reopen = [], ev_poll = Poll_error ERRNO_OTHER, ev_now = \<lparr>tv_sec = 1, tv_usec = 0\<rparr>,
                ev_als_on = True, ev_signal = False\<rparr>) s = Break Exit_poll_error s"
proof -
  let ?s = "loop_start [7] \<lparr>tv_sec = 0, tv_usec = 0\<rparr>"
  have "\<not> reopen ?s"
    by (simp add: loop_start_def)
  from poll_error_handling [OF this, of "\<lparr>ev_reopen = [], ev_poll = Poll_error EINTR,
      ev_now = \<lparr>tv_sec = 1, tv_usec = 0\<rparr>, ev_als_on = True, ev_signal = False\<rparr>" EINTR]
       poll_error_handling [OF this, of "\<lparr>ev_reopen = [], ev_poll = Poll_error ERRNO_OTHER,
      ev_now = \<lparr>tv_sec = 1, tv_usec = 0\<rparr>, ev_als_on = True, ev_signal = False\<rparr>" ERRNO_OTHER]
  show ?thesis
    by simp
qed

end
