(* ===== verification/LoopRun.thy ===== *)
theory LoopRun
  imports EventLoop "HOL-Library.Stream"
begin

text \<open>
  The \<open>while (running)\<close> loop of \<open>main\<close> (\<open>src/src/mbpeventd.c\<close>, lines
  370--448) as it runs, on an infinite stream of iterations, one \<open>iter_env\<close> each,
  since nothing bounds how often the loop goes round. \<open>run_loop\<close> is a
  \<open>partial_function\<close> in the option monad: \<open>None\<close> is a loop that never ends.
  Statements that the loop ends are made over the finite \<open>main_loop\<close> of
  \<open>EventLoop\<close>. This theory states the converse: when nothing ends the loop, it
  runs forever. That is proved by the induction rule of the partial function,
  which covers every run that returns.
\<close>

partial_function (option) run_loop :: "iter_env stream \<Rightarrow> loop_state \<Rightarrow> (loop_exit \<times> loop_state) option" where
  "run_loop es s =
     (if \<not> running s then Some (Exit_signal, s)
      else case loop_body (shd es) s of
             Break x s' \<Rightarrow> Some (x, s')
           | Continue s' \<Rightarrow> run_loop (stl es) s')"

text \<open>An iteration with nothing that ends the loop: no SIGINT/SIGTERM, a \<open>poll\<close>
  that succeeds or is interrupted, and a reopen, should one be pending, that finds
  a source.\<close>

definition quiet_iteration :: "iter_env \<Rightarrow> bool" where
  "quiet_iteration e \<longleftrightarrow>
     \<not> ev_signal e \<and> ev_reopen e \<noteq> [] \<and> ev_poll e \<noteq> Poll_error ERRNO_OTHER"

subsection \<open>Iterations that continue\<close>

lemma poll_step_quiet:
  assumes "running s" "quiet_iteration e"
  shows "\<exists>s'. poll_step e s = Continue s' \<and> running s'"
proof (cases "ev_poll e")
  case (Poll_error err)
  with assms have "err = EINTR"
    by (cases err) (simp_all add: quiet_iteration_def)
  with Poll_error assms show ?thesis
    by (simp add: poll_step_def deliver_signal_def quiet_iteration_def)
next
  case (Poll_ready rs)
  with assms show ?thesis
    by (auto simp add: poll_step_def Let_def deliver_signal_def ambient_check_def
        quiet_iteration_def case_prod_beta)
qed

lemma loop_body_quiet:
  assumes "running s" "quiet_iteration e"
  shows "\<exists>s'. loop_body e s = Continue s' \<and> running s'"
proof (cases "reopen s")
  case True
  have "running (s\<lparr>fds := evdev_pollfds (ev_reopen e), reopen := False\<rparr>)"
    using assms(1) by simp
  from poll_step_quiet [OF this assms(2)] True assms(2) show ?thesis
    by (simp add: loop_body_def quiet_iteration_def)
next
  case False
  with poll_step_quiet [OF assms] show ?thesis
    by (simp add: loop_body_def)
qed

text \<open>
  C36. Liveness of the daemon: as long as no SIGINT/SIGTERM arrives, \<open>poll\<close> fails
  with nothing but \<open>EINTR\<close>, and every reopen finds a source, the main loop never
  ends (\<open>run_loop\<close> does not return). The loop ends for no other reason, not even
  after any number of timeouts, hangups or interrupted waits.
\<close>

theorem run_loop_never_ends:
  assumes "\<forall>k. quiet_iteration (es !! k)" "running s"
  shows "run_loop es s = None"
proof (rule ccontr)
  assume "run_loop es s \<noteq> None"
  then obtain r where ret: "run_loop es s = Some r"
    by blast
  have "\<not> ((\<forall>k. quiet_iteration (es !! k)) \<and> running s)"
  proof (rule run_loop.raw_induct [where P = "\<lambda>es s r. \<not> ((\<forall>k. quiet_iteration (es !! k)) \<and> running s)",
        OF _ ret])
    fix f es s r
    assume IH: "\<And>es s r. f es s = Some r \<Longrightarrow> \<not> ((\<forall>k. quiet_iteration (es !! k)) \<and> running s)"
      and eq: "(if \<not> running s then Some (Exit_signal, s)
               else case loop_body (shd es) s of
                      Break x s' \<Rightarrow> Some (x, s')
                    | Continue s' \<Rightarrow> f (stl es) s') = Some r"
    show "\<not> ((\<forall>k. quiet_iteration (es !! k)) \<and> running s)"
    proof
      assume q: "(\<forall>k. quiet_iteration (es !! k)) \<and> running s"
      then have "quiet_iteration (shd es)"
        by (metis snth.simps(1))
      with q obtain s' where c: "loop_body (shd es) s = Continue s'" "running s'"
        using loop_body_quiet by blast
      with q eq have "f (stl es) s' = Some r"
        by simp
      then have "\<not> ((\<forall>k. quiet_iteration (stl es !! k)) \<and> running s')"
        by (rule IH)
      moreover have "\<forall>k. quiet_iteration (stl es !! k)"
        using q by (metis snth.simps(2))
      ultimately show False
        using c(2) by blast
    qed
  qed
  with assms show False
    by blast
qed

lemma run_loop_never_ends_example:
  "run_loop (sconst ((poll_env [] \<lparr>tv_sec = 1, tv_usec = 0\<rparr>)\<lparr>ev_reopen := [7]\<rparr>))
     (loop_start [7] \<lparr>tv_sec = 0, tv_usec = 0\<rparr>) = None"
proof (rule run_loop_never_ends)
  show "\<forall>k. quiet_iteration (sconst ((poll_env [] \<lparr>tv_sec = 1, tv_usec = 0\<rparr>)\<lparr>ev_reopen := [7]\<rparr>) !! k)"
    by (simp add: quiet_iteration_def poll_env_def)
  show "running (loop_start [7] \<lparr>tv_sec = 0, tv_usec = 0\<rparr>)"
    by (simp add: loop_start_def)
qed

end
