(* ===== verification/Spec2Isabelle.thy ===== *)
theory Spec2Isabelle
  imports SysfsBacklight Daemon Timeval32 MuxSpec LoopRun
begin

text \<open>
  \<^bold>\<open>A verification development of mbpeventd and its sysfs backlight driver.\<close>

  The program has two source files. \<open>src/src/mbpeventd.c\<close> is the daemon: \<open>main\<close>
  parses its options, loads the configuration, identifies the machine from its
  SMBIOS strings (\<open>check_machine_smbios\<close>), selects the driver bundle
  (\<open>struct machine_ops\<close>) of that model, probes the bundle's LCD backlight driver,
  opens the input event sources and runs a \<open>poll()\<close> loop. The loop dispatches input
  events, reopens the sources after a hangup, runs the ambient-light check every
  \<open>LOOP_TIMEOUT\<close> milliseconds, and ends on SIGINT/SIGTERM.
  \<open>src/pommed/pmac/sysfs_backlight.c\<close> is an LCD backlight driver for the Radeon
  sysfs interface: probe, read, write and step the level, and sanitise the configured
  step and initial level.

  \<^bold>\<open>Theories.\<close>
  \<^item> \<open>Prelude\<close>: the C types (\<open>c_int\<close> as \<open>int\<close>, \<open>c_short\<close> as \<open>16 word\<close>), the
    clamping idiom of the driver (\<open>clamp_above\<close>, \<open>clamp_below\<close>), and C's truncating
    division by two (\<open>sdiv\<close>).
  \<^item> \<open>CText\<close>: the libc conversions the driver relies on, \<open>printf("%d")\<close> as \<open>c_itoa\<close>
    and \<open>atoi\<close>. \<open>atoi\<close> is glibc's \<open>(int) strtol(s, NULL, 10)\<close>: the value of the
    digits, saturated to the range of a 64-bit \<open>long\<close>, then truncated to 32 bits.
    The round trip is \<open>atoi_nat_digits\<close>.
  \<^item> \<open>SysfsBacklight\<close>: all of \<open>sysfs_backlight.c\<close>. The C globals form the record
    \<open>sysfs_state\<close>. \<open>sysfs_backlight_get\<close>, \<open>sysfs_backlight_get_max\<close>,
    \<open>sysfs_backlight_set\<close>, \<open>sysfs_backlight_step\<close> (with its new-level computation
    \<open>sysfs_step_newval\<close>), \<open>sysfs_backlight_fix_config\<close> and
    \<open>r9600_sysfs_backlight_probe\<close> are one definition each. The kernel side of the
    sysfs nodes is the record \<open>sysfs_hw\<close>, with \<open>node_text\<close>, \<open>kernel_parse\<close> and
    \<open>brightness_store\<close>.
  \<^item> \<open>Logging\<close>: \<open>logmsg\<close>, which writes to standard error in debug mode and to
    \<open>vsyslog\<close> otherwise, and the \<open>syslog.h\<close> constants and macros.
  \<^item> \<open>Machine\<close>: \<open>check_machine_smbios\<close> (machine type, firmware queries made,
    messages logged), the four \<open>machine_ops\<close> tables, and the \<open>switch\<close> of \<open>main\<close>
    that selects one (\<open>select_mops\<close>, \<open>select_mops_log\<close>).
  \<^item> \<open>EventLoop\<close>: the main loop. Its locals form the record \<open>loop_state\<close>, and what
    the outside world supplies in one iteration is \<open>iter_env\<close>. The parts of one
    iteration are \<open>poll_step\<close> (\<open>poll\<close>, its errors, the descriptor scan \<open>scan_fds\<close>,
    the ambient timer \<open>ambient_check\<close> with \<open>tv_diff_usec\<close>) and \<open>loop_body\<close> (the
    reopen before the \<open>poll\<close>). \<open>main_loop\<close> runs the loop over a list of
    iterations. \<open>loop_step\<close> is the step relation of the iterations that continue.
  \<^item> \<open>Daemon\<close>: option parsing with \<open>usage()\<close> (\<open>mbpeventd_getopt\<close>), the startup
    sequence (\<open>mbpeventd_startup\<close>) and the whole process with its shutdown
    (\<open>mbpeventd\<close>). Each returns its status and the ordered trace of \<open>effect\<close>s it
    performs: messages, output, \<open>openlog\<close>/\<open>closelog\<close>, \<open>evdev_open\<close>/\<open>evdev_close\<close>,
    \<open>daemon()\<close>, and the pid file. Startup is generic in the backlight driver: it
    takes the probe function of the selected bundle as a parameter of type
    \<open>lcd_driver \<Rightarrow> 'h \<Rightarrow> int \<times> 'h\<close>. \<open>mbpeventd_trace\<close> lists the four ways a run
    can go.
  \<^item> \<open>Timeval32\<close>: the same \<open>timeval\<close> difference at the width of a 32-bit
    \<open>long\<close> (\<open>tv_diff_usec32\<close>, \<open>als_due32\<close> over \<open>32 word\<close>), as compiled for the 32-bit
    Core Duo machines the daemon supports.
  \<^item> \<open>MuxSpec\<close>: the abstract multiplexer of the design (\<open>Open n\<close>, \<open>Degraded n\<close>,
    \<open>Closed\<close>; relations \<open>mux_wait\<close> and \<open>mux_iter\<close>), the abstraction \<open>mux_abs\<close> of
    \<open>loop_state\<close>, and the handling of \<open>poll\<close> errors.
  \<^item> \<open>LoopRun\<close>: the \<open>while (running)\<close> loop as it runs, \<open>run_loop\<close>, a
    \<open>partial_function (option)\<close> over an infinite stream of iterations.
  \<^item> This theory holds this overview and imports the others.

  \<^bold>\<open>What is proved.\<close>
  \<^item> Driver (C1--C14). The invariant \<open>sysfs_inv\<close> holds after a successful probe
    and is kept by every step: the level stays in \<open>[0, max]\<close>, the step in
    \<open>[0, max / 2]\<close> and the initial level in \<open>[-1, max]\<close>. Stepping up and down moves
    the level by the configured step, clamped at the bounds, writes the same value to
    the hardware and notifies \<open>(new, old)\<close>. The no-op cases and the probe's failure
    paths are covered. Writing a level and reading it back gives the level. The
    findings are proved as well. A failed write still updates the cached level. An
    uninitialised stack byte after a three-byte read of a level of 100 or more makes
    the level read ten times too large, above the maximum (C13), and a step down
    from that reading leaves the driver's invariant broken (C10). A maximum of four
    digits or more is truncated to three. An unreadable maximum makes the probe blank
    the panel.
  \<^item> Identification (C15--C17): a missing privilege is told apart from an unknown
    machine, also in what is logged, a foreign vendor gets no model query, and a bundle is selected exactly
    for the six known model strings.
  \<^item> Event loop (C18--C24): every reachable loop state keeps a non-empty set of
    sources. A hangup or error on a source schedules a reopen, which the next
    iteration performs. The scan stops at the first erroring descriptor. A signal
    ends the loop at the next check. The ambient check runs once at least
    \<open>LOOP_TIMEOUT\<close> ms have passed, both after events and on a timeout.
  \<^item> Event loop, continued (C28--C30): when the clock goes back, only the
    microsecond fields are compared. \<open>tv_als\<close> always holds the time of the last
    ambient check. The loop leaves an empty source set exactly when a reopen failed.
    The lemma \<open>main_loop_Some\<close> shows every run of \<open>main_loop\<close> is a path of
    \<open>loop_step\<close>, which carries its invariants to the state the loop ends in.
  \<^item> 32-bit timing (C31--C32): below a gap of 2147 s the 32-bit computation is the
    exact difference and takes the same decision. From 2148 s it overflows and
    skips an overdue ambient check.
  \<^item> Daemon (C25--C27): the loop is entered only after every startup step
    succeeded. Every startup failure has a non-zero status, and its error messages
    name the cause. Every end of the loop gives status 0.
  \<^item> Multiplexer (C33--C34): each iteration of the loop is one transition of the
    abstract multiplexer (a simulation through \<open>mux_abs\<close>). An interrupted
    \<open>poll\<close> is not fatal, and any other \<open>poll\<close> error ends the loop.
  \<^item> Exit statuses (C35): the parent sees 0, 1 or 255, and sees 0 exactly for
    \<open>-v\<close> and for every run that entered the loop (\<open>exit_status\<close> keeps the low
    eight bits, as \<open>WEXITSTATUS\<close> does).
  \<^item> Liveness (C36): the infinite loop never ends while no signal arrives,
    \<open>poll\<close> fails with nothing but \<open>EINTR\<close>, and every reopen finds a source.
  \<^item> Resources and log output (C37--C38): every run that ends closes the event
    sources it opened and unlinks the pid file it wrote. What \<open>logmsg\<close> hands to
    \<open>vsyslog\<close> has the daemon facility and a level of \<open>LOG_ERR\<close>, \<open>LOG_WARNING\<close> or
    \<open>LOG_INFO\<close>. In debug mode every line on standard error carries its level tag.

  \<^bold>\<open>Environment assumptions and bounds.\<close>
  C \<open>int\<close> is the unbounded \<open>int\<close> in the driver's arithmetic. Its values are
  levels and steps that \<open>sysfs_inv\<close> keeps within \<open>[0, max_level]\<close> and below 1000,
  so no sum or difference there leaves 32 bits. Where a value comes from text, the
  width is kept: \<open>atoi\<close> wraps as the C library and compiler do. The kernel level
  and maximum are assumed below 1000 (\<open>hw_wf\<close>), as the sysfs node of a Radeon
  panel holds them. The driver reads at most three bytes, and C14 shows what happens
  above that bound. The bytes after the three read are the parameter
  \<open>stack_junk\<close>, and \<open>digit_free_start\<close> states that they end the number, as a zero
  byte does. Where
  overflow matters, the width is kept: \<open>revents\<close> is a \<open>16 word\<close>, and \<open>Timeval32\<close>
  computes the time difference at 32 bits with its two's complement wrap. The
  \<open>EventLoop\<close> version is the 64-bit (LP64) case, where no overflow is reachable
  from real clock readings. The loop does not terminate by itself. \<open>run_loop\<close> consumes an infinite
  stream of \<open>iter_env\<close>s and is \<open>None\<close> for a run that never ends. C36 proves it
  runs forever when nothing ends it. \<open>main_loop\<close> consumes a finite list and is \<open>None\<close> while
  the loop still runs, and most statements about the loop use that finite form. Time is a pair of integers, and C28 describes a
  clock that goes back.

  \<^bold>\<open>Not modelled.\<close> The X1600 and GMA950 backlight drivers, the event decoding
  (\<open>evdev_*\<close>), the keyboard backlight, audio, the configuration parser,
  \<open>daemon()\<close> and the pid file are not in the sources. They are tags (the
  \<open>machine_ops\<close> function pointers), flags of \<open>startup_env\<close> (their success or
  failure), effects of the trace, or records of the calls the loop makes
  (\<open>processed\<close>, \<open>als_checks\<close>). The \<open>logdebug\<close> macro is defined in a header
  that is not in the sources, so its lines are left out. So are the warning the
  loop logs on a hangup and the text of \<open>strerror(errno)\<close> and \<open>PIDFILE\<close> in
  messages. Headers that are not in the sources (\<open>machine_type\<close>, the step
  constants, \<open>LOOP_TIMEOUT\<close>, \<open>M_VERSION\<close>, which is a field of
  \<open>startup_env\<close>, and the \<open>syslog.h\<close> values) are modelled from the values the code
  and the C library use.
\<close>


end
